theory Spec2Isabelle
  imports Complex_Main "HOL-Library.Log_Nat"
begin

section \<open>JavaScript strings\<close>

text \<open>
  A JavaScript string is a sequence of 16-bit code units; \<open>length\<close>, \<open>trim\<close>,
  \<open>includes\<close> and the regular expressions of the analyzer (none carries the \<open>u\<close> flag)
  all work on code units. A code unit is represented by its value, an integer from 0 to
  65535; the analyzer compares code units and shifts ASCII letters by 32, it computes
  nothing that could leave that range. String literals of the source are ASCII and are
  written \<open>js ''...''\<close>.
\<close>

type_synonym cunit = int
type_synonym jstring = "cunit list"

definition js :: "string \<Rightarrow> jstring" where
  "js s = map of_char s"

fun startsWith :: "'a list \<Rightarrow> 'a list \<Rightarrow> bool" where
  "startsWith s [] = True"
| "startsWith [] (p # ps) = False"
| "startsWith (c # cs) (p # ps) = (c = p \<and> startsWith cs ps)"

text \<open>\<open>s.includes(p)\<close>: \<open>p\<close> occurs in \<open>s\<close> as a contiguous run; the empty string occurs everywhere.\<close>

fun includes_str :: "'a list \<Rightarrow> 'a list \<Rightarrow> bool" where
  "includes_str [] p = (p = [])"
| "includes_str (c # cs) p = (startsWith (c # cs) p \<or> includes_str cs p)"

text \<open>\<open>xs.join(sep)\<close>\<close>

fun join :: "jstring \<Rightarrow> jstring list \<Rightarrow> jstring" where
  "join sep [] = []"
| "join sep [x] = x"
| "join sep (x # y # ys) = x @ sep @ join sep (y # ys)"

subsection \<open>Character classes\<close>

text \<open>A character class is a list of inclusive code-unit ranges.\<close>

type_synonym cls = "(cunit \<times> cunit) list"

definition in_cls :: "cls \<Rightarrow> cunit \<Rightarrow> bool" where
  "in_cls rs c = list_ex (\<lambda>(lo, hi). lo \<le> c \<and> c \<le> hi) rs"

text \<open>\<open>\s\<close>, which is also what \<open>trim\<close> strips: WhiteSpace and LineTerminator of ECMAScript.\<close>

definition whiteSpace :: cls where
  "whiteSpace = [(0x9, 0xD), (0x20, 0x20), (0xA0, 0xA0), (0x1680, 0x1680), (0x2000, 0x200A),
     (0x2028, 0x2029), (0x202F, 0x202F), (0x205F, 0x205F), (0x3000, 0x3000), (0xFEFF, 0xFEFF)]"

text \<open>\<open>\d\<close>\<close>

definition digit :: cls where
  "digit = [(0x30, 0x39)]"

text \<open>The word characters \<open>[A-Za-z0-9_]\<close> that decide \<open>\b\<close>.\<close>

definition wordChar :: cls where
  "wordChar = [(0x41, 0x5A), (0x61, 0x7A), (0x30, 0x39), (0x5F, 0x5F)]"

definition trim :: "jstring \<Rightarrow> jstring" where
  "trim s = rev (dropWhile (in_cls whiteSpace) (rev (dropWhile (in_cls whiteSpace) s)))"

text \<open>
  Case folding of the \<open>i\<close> flag (Canonicalize without the \<open>u\<close> flag): a code unit is mapped
  to its upper case, and a unit outside ASCII never folds to an ASCII one. Every literal
  and class that the analyzer matches under \<open>i\<close> is ASCII, so folding ASCII letters and
  leaving every other unit alone decides exactly the same matches.
\<close>

definition canonicalize :: "cunit \<Rightarrow> cunit" where
  "canonicalize c = (if 0x61 \<le> c \<and> c \<le> 0x7A then c - 0x20 else c)"

definition asciiLower :: "cunit \<Rightarrow> cunit" where
  "asciiLower c = (if 0x41 \<le> c \<and> c \<le> 0x5A then c + 0x20 else c)"

section \<open>Regular expressions\<close>

text \<open>
  The regular expressions of the source, as syntax trees. Quantifiers occur in the source
  only on single character classes (\<open>\d+\<close>, \<open>\s*\<close>, \<open>\s+\<close>, \<open>[a-z]+\<close>) and on one literal
  (\<open>s?\<close>).
\<close>

datatype regex =
    Class cls
  | NotClass cls
  | Lit jstring
  | Seq regex regex
  | Alt regex regex
  | Many1 cls
  | Many0 cls
  | Opt regex
  | WordB

definition cls_match :: "bool \<Rightarrow> cls \<Rightarrow> cunit \<Rightarrow> bool" where
  "cls_match ci cl c = (in_cls cl c \<or> (ci \<and> (in_cls cl (canonicalize c) \<or> in_cls cl (asciiLower c))))"

fun lit_match :: "bool \<Rightarrow> jstring \<Rightarrow> jstring \<Rightarrow> bool" where
  "lit_match ci s [] = True"
| "lit_match ci [] (p # ps) = False"
| "lit_match ci (c # cs) (p # ps) =
     ((if ci then canonicalize c = canonicalize p else c = p) \<and> lit_match ci cs ps)"

definition isWordAt :: "jstring \<Rightarrow> nat \<Rightarrow> bool" where
  "isWordAt s i = (i < length s \<and> in_cls wordChar (s ! i))"

definition wordBoundary :: "jstring \<Rightarrow> nat \<Rightarrow> bool" where
  "wordBoundary s i = ((0 < i \<and> isWordAt s (i - 1)) \<noteq> isWordAt s i)"

text \<open>
  The backtracking matcher: \<open>ends ci s r i\<close> lists the end positions of the matches of
  \<open>r\<close> in \<open>s\<close> that start at \<open>i\<close>, in the order in which the backtracking
  search of ECMAScript tries them (left alternative first, greedy quantifiers longest
  first). The match the engine reports at \<open>i\<close> is the head of that list.
\<close>

fun ends :: "bool \<Rightarrow> jstring \<Rightarrow> regex \<Rightarrow> nat \<Rightarrow> nat list" where
  "ends ci s (Class cl) i =
     (case drop i s of [] \<Rightarrow> [] | c # _ \<Rightarrow> if cls_match ci cl c then [i + 1] else [])"
| "ends ci s (NotClass cl) i =
     (case drop i s of [] \<Rightarrow> [] | c # _ \<Rightarrow> if cls_match ci cl c then [] else [i + 1])"
| "ends ci s (Lit p) i = (if lit_match ci (drop i s) p then [i + length p] else [])"
| "ends ci s (Seq a b) i = concat (map (ends ci s b) (ends ci s a i))"
| "ends ci s (Alt a b) i = ends ci s a i @ ends ci s b i"
| "ends ci s (Many1 cl) i =
     map (\<lambda>k. i + k) (rev [1 ..< Suc (length (takeWhile (cls_match ci cl) (drop i s)))])"
| "ends ci s (Many0 cl) i =
     map (\<lambda>k. i + k) (rev [0 ..< Suc (length (takeWhile (cls_match ci cl) (drop i s)))])"
| "ends ci s (Opt a) i = ends ci s a i @ [i]"
| "ends ci s WordB i = (if wordBoundary s i then [i] else [])"

text \<open>\<open>re.test(s)\<close> for a regular expression without the \<open>g\<close> flag.\<close>

definition regex_test :: "bool \<Rightarrow> regex \<Rightarrow> jstring \<Rightarrow> bool" where
  "regex_test ci r s = list_ex (\<lambda>i. ends ci s r i \<noteq> []) [0 ..< Suc (length s)]"

text \<open>
  The matches of a \<open>g\<close> regular expression, as (start, end) pairs: the search resumes at
  the end of the last match, one unit further after an empty match.
\<close>

function scan :: "bool \<Rightarrow> regex \<Rightarrow> jstring \<Rightarrow> nat \<Rightarrow> (nat \<times> nat) list" where
  "scan ci r s i =
     (if length s < i then []
      else (case ends ci s r i of
              [] \<Rightarrow> scan ci r s (Suc i)
            | j # _ \<Rightarrow> (i, j) # scan ci r s (if j \<le> i then Suc i else j)))"
  by pat_completeness auto
termination
  by (relation "measure (\<lambda>(ci, r, s, i). Suc (length s) - i)") auto

declare scan.simps [simp del]

text \<open>\<open>s.match(re) || []\<close> for a \<open>g\<close> regular expression: the matched substrings.\<close>

definition match_all :: "bool \<Rightarrow> regex \<Rightarrow> jstring \<Rightarrow> jstring list" where
  "match_all ci r s = map (\<lambda>(i, j). take (j - i) (drop i s)) (scan ci r s 0)"

text \<open>\<open>s.replace(re, rep)\<close> for a \<open>g\<close> regular expression and a constant replacement.\<close>

fun splice :: "jstring \<Rightarrow> jstring \<Rightarrow> nat \<Rightarrow> (nat \<times> nat) list \<Rightarrow> jstring" where
  "splice s rep pos [] = drop pos s"
| "splice s rep pos ((i, j) # ms) = take (i - pos) (drop pos s) @ rep @ splice s rep j ms"

definition replace_all :: "bool \<Rightarrow> regex \<Rightarrow> jstring \<Rightarrow> jstring \<Rightarrow> jstring" where
  "replace_all ci r rep s = splice s rep 0 (scan ci r s 0)"

section \<open>The analyzer's collaborators\<close>

text \<open>
  \<open>String.prototype.toLowerCase\<close>. ASCII letters are folded; U+0130 and U+212A are the two
  units outside ASCII whose lower case contains an ASCII letter (\<open>i\<close> followed by U+0307,
  and \<open>k\<close>). Every other unit outside ASCII is mapped by the Unicode tables to units
  outside ASCII that are not white space; the model leaves it unchanged. The only
  reader of a lower-cased resume is the filter of \<open>preprocessText\<close>, which turns both
  into the same space, so the filtered text is the one the source computes. The keyword
  tables and tier names that are lower-cased elsewhere are ASCII.
\<close>

definition toLowerCase :: "jstring \<Rightarrow> jstring" where
  "toLowerCase s = concat (map (\<lambda>c. if c = 0x130 then [0x69, 0x307]
                                     else if c = 0x212A then [0x6B]
                                     else [asciiLower c]) s)"

text \<open>
  The libraries the analyzer calls are not part of the repository: the tokenizer
  (\<open>natural.WordTokenizer\<close>), the stop-word filter (\<open>stopword.removeStopwords\<close>), the
  stemmer (\<open>natural.PorterStemmer\<close>) and the locale-dependent number formatting
  (\<open>Number.prototype.toLocaleString\<close>, called on an integer or on \<open>NaN\<close>, which is
  \<open>None\<close> here). They are parameters of the model; each is taken to return, as a pure
  function of its argument.

  The engine is a parameter as well, in the one respect in which the analyzer depends on
  it: a call whose arguments are spread from an array, \<open>f(...xs)\<close>, puts every element of
  \<open>xs\<close> on the stack, and the engine throws a \<open>RangeError\<close> when there are more of them
  than the stack holds. \<open>maxArguments\<close> is the largest number of arguments that a spread
  call accepts (under Node, of the order of 120000).
\<close>

record runtime =
  tokenize :: "jstring \<Rightarrow> jstring list"
  removeStopwords :: "jstring list \<Rightarrow> jstring list"
  stem :: "jstring \<Rightarrow> jstring"
  toLocaleString :: "int option \<Rightarrow> jstring"
  maxArguments :: int

text \<open>
  A thrown error: an \<open>Error\<close> that the analyzer creates itself, or the \<open>RangeError\<close> of the
  engine, each with its message.
\<close>

datatype error = Error jstring | RangeError jstring

fun message :: "error \<Rightarrow> jstring" where
  "message (Error m) = m"
| "message (RangeError m) = m"

section \<open>Keyword tables\<close>

definition industryKeywords :: "(jstring \<times> jstring list) list" where
  "industryKeywords =
    [(js ''frontend'', map js [''javascript'', ''react'', ''vue'', ''angular'', ''html'', ''css'',
        ''typescript'', ''nodejs'', ''webpack'', ''bootstrap'']),
     (js ''backend'', map js [''python'', ''java'', ''nodejs'', ''express'', ''mongodb'',
        ''postgresql'', ''api'', ''rest'', ''microservices'', ''spring'']),
     (js ''data_science'', map js [''python'', ''r'', ''sql'', ''pandas'', ''numpy'',
        ''machine learning'', ''tensorflow'', ''scikit-learn'', ''data analysis'']),
     (js ''devops'', map js [''docker'', ''kubernetes'', ''aws'', ''jenkins'', ''ci/cd'',
        ''terraform'', ''ansible'', ''linux'', ''bash'']),
     (js ''mobile'', map js [''react native'', ''flutter'', ''swift'', ''kotlin'', ''android'',
        ''ios'', ''mobile development''])]"

definition skillCategories :: "(jstring \<times> jstring list) list" where
  "skillCategories =
    [(js ''programming_languages'', map js [''javascript'', ''python'', ''java'', ''c++'', ''c#'',
        ''go'', ''rust'', ''php'']),
     (js ''frameworks'', map js [''react'', ''vue'', ''angular'', ''express'', ''django'',
        ''spring'', ''laravel'']),
     (js ''databases'', map js [''mysql'', ''postgresql'', ''mongodb'', ''redis'', ''oracle'',
        ''sql server'']),
     (js ''tools'', map js [''git'', ''docker'', ''kubernetes'', ''aws'', ''azure'', ''jenkins'',
        ''webpack'']),
     (js ''soft_skills'', map js [''communication'', ''leadership'', ''teamwork'',
        ''problem solving'', ''agile''])]"

section \<open>Preprocessing\<close>

text \<open>The class of \<open>/[^a-zA-Z0-9\s\-\/\+\#\.\@\_\(\)]/g\<close>.\<close>

definition allowed :: cls where
  "allowed = [(0x61, 0x7A), (0x41, 0x5A), (0x30, 0x39)] @ whiteSpace @
     [(0x2D, 0x2D), (0x2F, 0x2F), (0x2B, 0x2B), (0x23, 0x23), (0x2E, 0x2E), (0x40, 0x40),
      (0x5F, 0x5F), (0x28, 0x28), (0x29, 0x29)]"

definition preprocessText :: "runtime \<Rightarrow> jstring \<Rightarrow> jstring list" where
  "preprocessText R text =
     (let processed = toLowerCase text;
          processed = replace_all False (NotClass allowed) (js '' '') processed;
          tokens = tokenize R processed;
          filteredTokens = removeStopwords R tokens;
          stemmedTokens = map (stem R) filteredTokens
      in stemmedTokens)"

section \<open>Keyword matching\<close>

text \<open>\<open>keyword.toLowerCase().replace(/\s+/g, '')\<close>\<close>

definition cleanKeyword :: "jstring \<Rightarrow> jstring" where
  "cleanKeyword keyword = replace_all False (Many1 whiteSpace) [] (toLowerCase keyword)"

text \<open>\<open>token.includes(cleanKeyword) || cleanKeyword.includes(token)\<close>\<close>

definition keywordMatch :: "jstring \<Rightarrow> jstring \<Rightarrow> bool" where
  "keywordMatch token keyword =
     (includes_str token (cleanKeyword keyword) \<or> includes_str (cleanKeyword keyword) token)"

text \<open>\<open>tokens.filter(token => keywords.some(keyword => ...)).length\<close>\<close>

definition countMatchingTokens :: "jstring list \<Rightarrow> jstring list \<Rightarrow> int" where
  "countMatchingTokens keywords tokens =
     int (length (filter (\<lambda>token. list_ex (\<lambda>keyword. keywordMatch token keyword) keywords) tokens))"

text \<open>\<open>keywords.filter(keyword => tokens.some(token => ...))\<close>\<close>

definition matchedKeywords :: "jstring list \<Rightarrow> jstring list \<Rightarrow> jstring list" where
  "matchedKeywords keywords tokens =
     filter (\<lambda>keyword. list_ex (\<lambda>token. keywordMatch token keyword) tokens) keywords"

text \<open>\<open>tokens.filter(token => patterns.some(pattern => token.includes(pattern))).length\<close>\<close>

definition countMentions :: "jstring list \<Rightarrow> jstring list \<Rightarrow> int" where
  "countMentions patterns tokens =
     int (length (filter (\<lambda>token. list_ex (\<lambda>pattern. includes_str token pattern) patterns) tokens))"

text \<open>\<open>(text.match(re) || []).length\<close>\<close>

definition countMatches :: "bool \<Rightarrow> regex \<Rightarrow> jstring \<Rightarrow> int" where
  "countMatches ci r text = int (length (match_all ci r text))"

section \<open>Section scores\<close>

record sections =
  skills :: int
  experience :: int
  education :: int
  projects :: int
  formatting :: int
  achievements :: int

definition scoreSkillsSection :: "runtime \<Rightarrow> jstring \<Rightarrow> int" where
  "scoreSkillsSection R text =
     (let skillIndicators = map js [''skill'', ''competency'', ''proficiency'', ''expertise'',
            ''knowledge'', ''ability''];
          tokens = preprocessText R text;
          skillMentions = countMentions skillIndicators tokens;
          technicalScore = foldl (\<lambda>technicalScore keywords.
              max technicalScore (countMatchingTokens keywords tokens)) 0 (map snd skillCategories)
      in min 100 ((skillMentions * 8) + (technicalScore * 6)))"

text \<open>\<open>/\d+\s*(?:year|yr)s?|month|present|current/gi\<close>, joined from \<open>timePatterns\<close>.\<close>

definition timeRegex :: regex where
  "timeRegex =
     Alt (Seq (Many1 digit) (Seq (Many0 whiteSpace)
            (Seq (Alt (Lit (js ''year'')) (Lit (js ''yr''))) (Opt (Lit (js ''s''))))))
      (Alt (Lit (js ''month'')) (Alt (Lit (js ''present'')) (Lit (js ''current''))))"

definition scoreExperienceSection :: "runtime \<Rightarrow> jstring \<Rightarrow> int" where
  "scoreExperienceSection R text =
     (let experiencePatterns = map js [''experience'', ''work'', ''position'', ''role'',
            ''responsibility'', ''duty'', ''task''];
          tokens = preprocessText R text;
          experienceMentions = countMentions experiencePatterns tokens;
          timeMentions = countMatches True timeRegex text
      in min 100 ((experienceMentions * 10) + (timeMentions * 5)))"

definition scoreEducationSection :: "runtime \<Rightarrow> jstring \<Rightarrow> int" where
  "scoreEducationSection R text =
     (let educationPatterns = map js [''education'', ''degree'', ''university'', ''college'',
            ''bachelor'', ''master'', ''phd'', ''bs'', ''ms'', ''ba'', ''ma''];
          tokens = preprocessText R text;
          educationMentions = countMentions educationPatterns tokens
      in min 100 (educationMentions * 15))"

definition scoreProjectsSection :: "runtime \<Rightarrow> jstring \<Rightarrow> int" where
  "scoreProjectsSection R text =
     (let projectPatterns = map js [''project'', ''portfolio'', ''built'', ''developed'',
            ''created'', ''designed'', ''implemented''];
          tokens = preprocessText R text;
          projectMentions = countMentions projectPatterns tokens
      in min 100 (projectMentions * 20))"

text \<open>
  The four patterns of \<open>scoreFormatting\<close>: \<open>/\n/g\<close>, \<open>/[-\<bullet>*]/g\<close> (hyphen, U+2022, asterisk),
  \<open>/:/g\<close> and \<open>/[A-Z][a-z]+/g\<close>.
\<close>

definition scoreFormatting :: "jstring \<Rightarrow> int" where
  "scoreFormatting text =
     (let structureScore = (if countMatches False (Class [(0xA, 0xA)]) text > 10 then 25 else 10);
          bulletScore = (if countMatches False
              (Class [(0x2D, 0x2D), (0x2022, 0x2022), (0x2A, 0x2A)]) text > 5 then 25 else 10);
          sectionScore = (if countMatches False (Class [(0x3A, 0x3A)]) text > 3 then 20 else 5);
          capitalScore = (if countMatches False
              (Seq (Class [(0x41, 0x5A)]) (Many1 [(0x61, 0x7A)])) text > 20 then 20 else 10)
      in min 100 (structureScore + bulletScore + sectionScore + capitalScore))"

text \<open>\<open>/\d+[%kmg]|increase|decrease|improve|reduce/gi\<close>\<close>

definition quantifiedRegex :: regex where
  "quantifiedRegex =
     Alt (Seq (Many1 digit) (Class [(0x25, 0x25), (0x6B, 0x6B), (0x6D, 0x6D), (0x67, 0x67)]))
      (Alt (Lit (js ''increase'')) (Alt (Lit (js ''decrease''))
        (Alt (Lit (js ''improve'')) (Lit (js ''reduce'')))))"

definition scoreAchievementsSection :: "runtime \<Rightarrow> jstring \<Rightarrow> int" where
  "scoreAchievementsSection R text =
     (let achievementPatterns = map js [''achieve'', ''award'', ''recognition'', ''certification'',
            ''certified'', ''accomplishment'', ''success''];
          tokens = preprocessText R text;
          achievementMentions = countMentions achievementPatterns tokens;
          quantifiedScore = countMatches True quantifiedRegex text * 5
      in min 100 ((achievementMentions * 10) + quantifiedScore))"

definition scoreSections :: "runtime \<Rightarrow> jstring \<Rightarrow> sections" where
  "scoreSections R resumeText =
     \<lparr> skills = scoreSkillsSection R resumeText,
       experience = scoreExperienceSection R resumeText,
       education = scoreEducationSection R resumeText,
       projects = scoreProjectsSection R resumeText,
       formatting = scoreFormatting resumeText,
       achievements = scoreAchievementsSection R resumeText \<rparr>"

section \<open>Recommendations\<close>

record recommendation =
  problem :: jstring
  solution :: jstring
  priority :: jstring
  expectedImpact :: jstring

text \<open>\<open>/[\d+%$]|increase|decrease|improve|reduce|save|generate/i\<close>: inside the brackets the
  plus sign is a member of the class, next to the digits, the percent and the dollar sign.\<close>

definition quantificationRegex :: regex where
  "quantificationRegex =
     Alt (Class [(0x30, 0x39), (0x2B, 0x2B), (0x25, 0x25), (0x24, 0x24)])
      (Alt (Lit (js ''increase'')) (Alt (Lit (js ''decrease''))
        (Alt (Lit (js ''improve'')) (Alt (Lit (js ''reduce''))
          (Alt (Lit (js ''save'')) (Lit (js ''generate'')))))))"

definition generateRecommendations :: "runtime \<Rightarrow> jstring \<Rightarrow> sections \<Rightarrow> recommendation list" where
  "generateRecommendations R resumeText sects =
     (let tokens = preprocessText R resumeText;
          hasQuantification = regex_test True quantificationRegex resumeText;
          recommendations = (if \<not> hasQuantification then
            [\<lparr> problem = js ''Resume lacks quantified achievements'',
               solution = js ''Add specific metrics to describe your accomplishments (e.g., 'Increased sales by 25%', 'Managed team of 5 developers', 'Reduced processing time by 40%')'',
               priority = js ''High'',
               expectedImpact = js ''Makes your contributions measurable and more impactful to employers'' \<rparr>]
            else []);
          missingKeywords = concat (map (\<lambda>(industry, keywords).
              if length (matchedKeywords keywords tokens) < 2 then take 3 keywords else [])
            industryKeywords);
          recommendations = recommendations @ (if length missingKeywords > 0 then
            [\<lparr> problem = js ''Missing industry-standard keywords'',
               solution = js ''Include relevant technical terms like: '' @
                            join (js '', '') (take 5 missingKeywords),
               priority = js ''Medium'',
               expectedImpact = js ''Improves ATS compatibility and keyword matching'' \<rparr>]
            else []);
          recommendations = recommendations @ (if experience sects < 60 then
            [\<lparr> problem = js ''Experience section needs improvement'',
               solution = js ''Add more detailed descriptions of your roles, responsibilities, and achievements with specific examples'',
               priority = js ''High'',
               expectedImpact = js ''Better demonstrates your professional value and career progression'' \<rparr>]
            else []);
          recommendations = recommendations @ (if skills sects < 50 then
            [\<lparr> problem = js ''Skills section is underdeveloped'',
               solution = js ''List specific technologies, tools, methodologies, and frameworks you're proficient in with proficiency levels'',
               priority = js ''High'',
               expectedImpact = js ''Helps recruiters quickly assess your technical fit for positions'' \<rparr>]
            else []);
          recommendations = recommendations @ (if achievements sects < 40 then
            [\<lparr> problem = js ''Limited quantified achievements'',
               solution = js ''Include specific metrics and results from your work (e.g., 'Delivered project 2 weeks ahead of schedule', 'Improved system performance by 35%')'',
               priority = js ''Medium'',
               expectedImpact = js ''Demonstrates measurable impact and results-oriented mindset'' \<rparr>]
            else []);
          recommendations = recommendations @ (if formatting sects < 50 then
            [\<lparr> problem = js ''Formatting and structure need improvement'',
               solution = js ''Use consistent formatting, bullet points, clear section headings, and professional layout'',
               priority = js ''Medium'',
               expectedImpact = js ''Improves readability and makes your resume more scanner-friendly'' \<rparr>]
            else [])
      in take 6 recommendations)"

section \<open>Industry detection\<close>

text \<open>
  The detection loop, which \<open>generateRoadmap\<close> and \<open>suggestRoles\<close> each carry a copy of:
  it walks the entries of \<open>industryIndicators\<close> in insertion order and keeps the industry
  whose number of matched keywords is strictly greater than the maximum so far.
\<close>

definition matchCount :: "jstring list \<Rightarrow> jstring list \<Rightarrow> int" where
  "matchCount keywords tokens = int (length (matchedKeywords keywords tokens))"

text \<open>The body of the loop, on the pair of \<open>primaryIndustry\<close> and \<open>maxMatches\<close>.\<close>

definition detectStep ::
  "jstring list \<Rightarrow> jstring \<times> int \<Rightarrow> jstring \<times> jstring list \<Rightarrow> jstring \<times> int" where
  "detectStep tokens = (\<lambda>(primaryIndustry, maxMatches) (industry, keywords).
     (let matches = matchCount keywords tokens
      in if matches > maxMatches then (industry, matches)
         else (primaryIndustry, maxMatches)))"

definition detectIndustry :: "(jstring \<times> jstring list) list \<Rightarrow> jstring list \<Rightarrow> jstring" where
  "detectIndustry industryIndicators tokens =
     fst (foldl (detectStep tokens) (js ''general'', 0) industryIndicators)"

text \<open>The \<open>industryIndicators\<close> of \<open>generateRoadmap\<close>.\<close>

definition roadmapIndustryIndicators :: "(jstring \<times> jstring list) list" where
  "roadmapIndustryIndicators =
    [(js ''technology'', map js [''software'', ''developer'', ''programmer'', ''coding'', ''web'',
        ''app'', ''mobile'', ''frontend'', ''backend'', ''fullstack'']),
     (js ''business'', map js [''manager'', ''marketing'', ''sales'', ''business'', ''finance'',
        ''accounting'', ''hr'', ''operations'']),
     (js ''healthcare'', map js [''doctor'', ''nurse'', ''medical'', ''healthcare'', ''hospital'',
        ''pharmacy'', ''clinical'']),
     (js ''education'', map js [''teacher'', ''professor'', ''educator'', ''teaching'', ''school'',
        ''university'', ''training'']),
     (js ''engineering'', map js [''engineer'', ''civil'', ''mechanical'', ''electrical'',
        ''chemical'', ''design'']),
     (js ''creative'', map js [''designer'', ''artist'', ''creative'', ''graphic'', ''content'',
        ''writer'', ''photographer'']),
     (js ''service'', map js [''customer service'', ''hospitality'', ''hotel'', ''restaurant'',
        ''retail'', ''sales'']),
     (js ''legal'', map js [''lawyer'', ''legal'', ''attorney'', ''court'', ''judge'', ''paralegal'']),
     (js ''government'', map js [''government'', ''public'', ''police'', ''fire'', ''military'',
        ''defense'']),
     (js ''finance'', map js [''banking'', ''investment'', ''finance'', ''accountant'',
        ''financial'', ''insurance''])]"

text \<open>The \<open>industryIndicators\<close> of \<open>suggestRoles\<close>.\<close>

definition roleIndustryIndicators :: "(jstring \<times> jstring list) list" where
  "roleIndustryIndicators =
    [(js ''technology'', map js [''software'', ''developer'', ''programmer'', ''coding'', ''web'',
        ''app'', ''mobile'', ''frontend'', ''backend'', ''fullstack'', ''react'', ''angular'',
        ''vue'', ''node'', ''python'', ''java'', ''javascript'']),
     (js ''business'', map js [''manager'', ''marketing'', ''sales'', ''business'', ''finance'',
        ''accounting'', ''hr'', ''human resources'', ''operations'', ''project management'',
        ''strategy'', ''consulting'']),
     (js ''healthcare'', map js [''doctor'', ''nurse'', ''medical'', ''healthcare'', ''hospital'',
        ''pharmacy'', ''pharmacist'', ''clinical'', ''patient care'', ''therapy'', ''dentist'']),
     (js ''education'', map js [''teacher'', ''professor'', ''educator'', ''teaching'', ''school'',
        ''university'', ''training'', ''instruction'', ''curriculum'', ''academic'']),
     (js ''engineering'', map js [''engineer'', ''civil'', ''mechanical'', ''electrical'',
        ''chemical'', ''design'', ''construction'', ''manufacturing'', ''technical'']),
     (js ''creative'', map js [''designer'', ''artist'', ''creative'', ''graphic'', ''content'',
        ''writer'', ''photographer'', ''video'', ''media'', ''advertising'']),
     (js ''service'', map js [''customer service'', ''hospitality'', ''hotel'', ''restaurant'',
        ''retail'', ''sales'', ''support'', ''call center'', ''client'']),
     (js ''legal'', map js [''lawyer'', ''legal'', ''attorney'', ''court'', ''judge'', ''paralegal'',
        ''law'', ''juris'', ''advocate'']),
     (js ''government'', map js [''government'', ''public'', ''police'', ''fire'', ''military'',
        ''defense'', ''civil service'', ''administration'', ''public service'']),
     (js ''finance'', map js [''banking'', ''investment'', ''finance'', ''accountant'',
        ''financial'', ''insurance'', ''audit'', ''tax'', ''wealth management''])]"

section \<open>Roadmap\<close>

record roadmapItem =
  title :: jstring
  itemType :: jstring
  description :: jstring

definition item :: "string \<Rightarrow> string \<Rightarrow> string \<Rightarrow> roadmapItem" where
  "item t ty d = \<lparr> title = js t, itemType = js ty, description = js d \<rparr>"

definition industryRoadmaps :: "(jstring \<times> roadmapItem list) list" where
  "industryRoadmaps =
    [(js ''technology'',
       [item ''Master Core Technical Skills'' ''learn'' ''Strengthen programming fundamentals and core technologies'',
        item ''Build Practical Projects'' ''project'' ''Create real-world applications to demonstrate expertise'',
        item ''Learn Industry Best Practices'' ''learn'' ''Study modern development methodologies and standards'']),
     (js ''business'',
       [item ''Develop Business Acumen'' ''learn'' ''Understand market dynamics and business operations'',
        item ''Enhance Communication Skills'' ''learn'' ''Build strong presentation and negotiation abilities'',
        item ''Gain Leadership Experience'' ''project'' ''Lead initiatives and manage team projects'']),
     (js ''healthcare'',
       [item ''Advance Clinical Knowledge'' ''learn'' ''Stay updated with latest medical practices and technologies'',
        item ''Develop Patient Care Skills'' ''project'' ''Enhance bedside manner and patient communication'',
        item ''Pursue Specialization'' ''learn'' ''Focus on specific medical areas of interest'']),
     (js ''education'',
       [item ''Enhance Teaching Methodologies'' ''learn'' ''Learn modern pedagogical approaches and techniques'',
        item ''Develop Curriculum Skills'' ''project'' ''Create engaging educational content and materials'',
        item ''Build Educational Technology Skills'' ''learn'' ''Master digital tools for modern education'']),
     (js ''engineering'',
       [item ''Strengthen Technical Foundation'' ''learn'' ''Master core engineering principles and mathematics'',
        item ''Gain Practical Experience'' ''project'' ''Work on hands-on engineering projects and designs'',
        item ''Learn Industry Standards'' ''learn'' ''Understand safety protocols and engineering best practices'']),
     (js ''creative'',
       [item ''Develop Creative Portfolio'' ''project'' ''Build a strong portfolio showcasing diverse creative work'',
        item ''Master Design Tools'' ''learn'' ''Become proficient in industry-standard creative software'',
        item ''Understand Market Trends'' ''learn'' ''Stay current with design trends and creative industry developments'']),
     (js ''service'',
       [item ''Enhance Customer Service Skills'' ''learn'' ''Develop exceptional client interaction and problem-solving abilities'',
        item ''Learn Service Industry Best Practices'' ''learn'' ''Understand hospitality and service excellence standards'',
        item ''Build Management Skills'' ''project'' ''Gain experience in team coordination and service operations'']),
     (js ''legal'',
       [item ''Deepen Legal Knowledge'' ''learn'' ''Study relevant laws, regulations, and legal precedents'',
        item ''Develop Analytical Skills'' ''learn'' ''Enhance legal research and case analysis capabilities'',
        item ''Gain Practical Legal Experience'' ''project'' ''Participate in real legal cases and client interactions'']),
     (js ''government'',
       [item ''Understand Public Policy'' ''learn'' ''Study governance structures and public administration'',
        item ''Develop Civic Engagement Skills'' ''learn'' ''Learn community outreach and public service delivery'',
        item ''Build Leadership in Public Service'' ''project'' ''Lead initiatives that benefit communities and citizens'']),
     (js ''finance'',
       [item ''Master Financial Analysis'' ''learn'' ''Develop skills in financial modeling and market analysis'',
        item ''Understand Regulatory Framework'' ''learn'' ''Study financial regulations and compliance requirements'',
        item ''Gain Investment Experience'' ''project'' ''Work on portfolio management and investment strategies'']),
     (js ''general'',
       [item ''Develop Professional Skills'' ''learn'' ''Enhance communication, organization, and time management'',
        item ''Build Industry Knowledge'' ''learn'' ''Gain expertise in your chosen field through continuous learning'',
        item ''Create Professional Network'' ''project'' ''Connect with industry professionals and mentors''])]"

text \<open>\<open>table[key] || table[fallback]\<close>, for a key that is one of the table's own keys or not a
  property at all.\<close>

definition lookupOr :: "(jstring \<times> 'a list) list \<Rightarrow> jstring \<Rightarrow> jstring \<Rightarrow> 'a list" where
  "lookupOr table key fallback =
     (case map_of table key of Some v \<Rightarrow> v
      | None \<Rightarrow> (case map_of table fallback of Some v \<Rightarrow> v | None \<Rightarrow> []))"

definition leadershipStep :: roadmapItem where
  "leadershipStep = item ''Develop Leadership and Management Skills'' ''learn''
     ''Build team leadership, strategic planning, and decision-making capabilities''"

definition certificationStep :: roadmapItem where
  "certificationStep = item ''Pursue Professional Certifications'' ''milestone''
     ''Obtain industry-recognized credentials to validate your expertise''"

definition closingStep :: roadmapItem where
  "closingStep = item ''Continuous Professional Development'' ''learn''
     ''Commit to lifelong learning and skill enhancement in your field''"

text \<open>The second half of \<open>generateRoadmap\<close>, from \<open>roadmap.push(...baseRoadmap)\<close> to the
  final \<open>slice(0, 6)\<close>.\<close>

definition extendRoadmap :: "roadmapItem list \<Rightarrow> sections \<Rightarrow> roadmapItem list" where
  "extendRoadmap baseRoadmap sects =
     (let roadmap = [] @ baseRoadmap;
          roadmap = roadmap @ (if experience sects > 70 then [leadershipStep] else []);
          roadmap = roadmap @ (if skills sects > 60 then [certificationStep] else []);
          roadmap = roadmap @ [closingStep]
      in take 6 roadmap)"

text \<open>The \<open>primaryIndustry\<close> that \<open>generateRoadmap\<close> detects.\<close>

definition roadmapIndustry :: "runtime \<Rightarrow> jstring \<Rightarrow> jstring" where
  "roadmapIndustry R resumeText =
     (let tokens = preprocessText R resumeText
      in detectIndustry roadmapIndustryIndicators tokens)"

definition generateRoadmap :: "runtime \<Rightarrow> jstring \<Rightarrow> sections \<Rightarrow> roadmapItem list" where
  "generateRoadmap R resumeText sects =
     (let primaryIndustry = roadmapIndustry R resumeText;
          baseRoadmap = lookupOr industryRoadmaps primaryIndustry (js ''general'')
      in extendRoadmap baseRoadmap sects)"

section \<open>Experience level\<close>

text \<open>\<open>/\b(\d+)\s*(?:year|yr)s?\b/gi\<close>\<close>

definition yearsPattern :: regex where
  "yearsPattern =
     Seq WordB (Seq (Many1 digit) (Seq (Many0 whiteSpace)
       (Seq (Alt (Lit (js ''year'')) (Lit (js ''yr''))) (Seq (Opt (Lit (js ''s''))) WordB))))"

text \<open>
  \<open>parseInt\<close> on a string that starts with a decimal digit or with none: the value of the
  leading digits, and \<open>NaN\<close> (here \<open>None\<close>) without one. The source calls it on matches of
  \<open>yearsPattern\<close> only. The result is kept exact: \<open>parseInt\<close> rounds a value above \<open>2^53\<close> to
  a double, which no comparison with 2 or 5 can tell from the exact value.
\<close>

definition parseInt :: "jstring \<Rightarrow> int option" where
  "parseInt s =
     (let ds = takeWhile (in_cls digit) s
      in if ds = [] then None
         else Some (foldl (\<lambda>n c. 10 * n + (c - 0x30)) 0 ds))"

text \<open>
  \<open>Math.max(...xs)\<close> on a non-empty array of numbers: the engine throws a \<open>RangeError\<close> when
  the array has more elements than a spread call accepts (the message is the one of
  Node); otherwise the result is \<open>NaN\<close> as soon as one argument is, and the greatest
  argument if none is.
\<close>

definition Math_max_list :: "runtime \<Rightarrow> int option list \<Rightarrow> error + int option" where
  "Math_max_list R xs =
     (if maxArguments R < int (length xs)
      then Inl (RangeError (js ''Maximum call stack size exceeded''))
      else Inr (if list_ex (\<lambda>x. x = None) xs then None
                else Some (foldl max 0 (map the xs))))"

text \<open>\<open>years >= k\<close>: false for \<open>NaN\<close>.\<close>

definition num_ge :: "int option \<Rightarrow> int \<Rightarrow> bool" where
  "num_ge x k = (case x of None \<Rightarrow> False | Some v \<Rightarrow> k \<le> v)"

text \<open>The tier, once the number of years is known.\<close>

definition experienceTier :: "int option \<Rightarrow> int \<Rightarrow> jstring" where
  "experienceTier years experienceScore =
     (if num_ge years 5 \<or> experienceScore \<ge> 80 then js ''Senior Level''
      else if num_ge years 2 \<or> experienceScore \<ge> 60 then js ''Mid Level''
      else js ''Entry Level'')"

text \<open>
  \<open>classifyExperienceLevel\<close>: \<open>Math.max\<close> is called, on all the matches at once, only when
  there is a match; what it throws leaves the function.
\<close>

definition classifyExperienceLevel :: "runtime \<Rightarrow> int \<Rightarrow> jstring \<Rightarrow> error + jstring" where
  "classifyExperienceLevel R experienceScore text =
     (let matches = match_all True yearsPattern text
      in if matches \<noteq> []
         then (case Math_max_list R (map parseInt matches) of
                 Inl e \<Rightarrow> Inl e
               | Inr years \<Rightarrow> Inr (experienceTier years experienceScore))
         else Inr (experienceTier (Some 0) experienceScore))"

section \<open>Primary skills\<close>

text \<open>\<open>skillCounts[keyword] = (skillCounts[keyword] || 0) + matches\<close> on an object whose
  keys keep their insertion order.\<close>

fun addCount :: "jstring \<Rightarrow> int \<Rightarrow> (jstring \<times> int) list \<Rightarrow> (jstring \<times> int) list" where
  "addCount keyword matches [] = [(keyword, 0 + matches)]"
| "addCount keyword matches ((k, n) # rest) =
     (if k = keyword then (k, n + matches) # rest else (k, n) # addCount keyword matches rest)"

definition detectPrimarySkills :: "runtime \<Rightarrow> jstring \<Rightarrow> jstring list" where
  "detectPrimarySkills R text =
     (let tokens = preprocessText R text;
          skillCounts = foldl (\<lambda>skillCounts keyword.
              (let matches = int (length (filter (\<lambda>token. keywordMatch token keyword) tokens))
               in if matches > 0 then addCount keyword matches skillCounts else skillCounts))
            [] (concat (map snd skillCategories))
      in map fst (take 8 (sort_key (\<lambda>(skill, n). - n) skillCounts)))"

section \<open>Summary, strengths and weaknesses\<close>

text \<open>Decimal digits of a natural number, as \<open>${n}\<close> prints them.\<close>

fun showNat :: "nat \<Rightarrow> jstring" where
  "showNat n = (if n < 10 then [0x30 + of_nat n]
                else showNat (n div 10) @ [0x30 + of_nat (n mod 10)])"

definition showInt :: "int \<Rightarrow> jstring" where
  "showInt n = (if n < 0 then js ''-'' @ showNat (nat (- n)) else showNat (nat n))"

text \<open>\<open>text.split(/\s+/).length\<close>: one more piece than there are separators.\<close>

definition splitCount :: "jstring \<Rightarrow> nat" where
  "splitCount text = Suc (length (scan False (Many1 whiteSpace) text 0))"

definition generateSummary :: "jstring \<Rightarrow> int \<Rightarrow> jstring \<Rightarrow> jstring list \<Rightarrow> jstring" where
  "generateSummary text score experienceLevel primarySkills =
     (let len = splitCount text;
          skillsList = join (js '', '') (take 3 primarySkills)
      in js ''This is a '' @ toLowerCase experienceLevel @ js '' resume ('' @
         (if score \<ge> 80 then js ''strong'' else if score \<ge> 60 then js ''solid''
          else js ''developing'') @
         js '') with approximately '' @ showNat len @
         js '' words. The candidate demonstrates proficiency in '' @ skillsList @
         js '' and shows '' @ (if score \<ge> 70 then js ''clear'' else js ''emerging'') @
         js '' potential for professional growth.'')"

definition identifyStrengths :: "sections \<Rightarrow> jstring list \<Rightarrow> jstring list" where
  "identifyStrengths sects primarySkills =
     (let strengths =
            (if skills sects \<ge> 80
             then [js ''Strong technical skills including '' @ join (js '', '') (take 3 primarySkills)]
             else []) @
            (if experience sects \<ge> 75
             then [js ''Extensive professional experience with clear career progression''] else []) @
            (if achievements sects \<ge> 70
             then [js ''Quantified achievements demonstrating measurable impact''] else []) @
            (if formatting sects \<ge> 80
             then [js ''Well-structured and professionally formatted resume''] else []) @
            (if projects sects \<ge> 60
             then [js ''Solid project portfolio and hands-on experience''] else [])
      in if length strengths > 0 then strengths
         else [js ''Shows potential for development and learning''])"

definition identifyWeaknesses :: "sections \<Rightarrow> jstring list" where
  "identifyWeaknesses sects =
     (let weaknesses =
            (if skills sects < 50
             then [js ''Technical skills section needs more detail and specificity''] else []) @
            (if experience sects < 50
             then [js ''Limited work experience documentation''] else []) @
            (if achievements sects < 40
             then [js ''Could include more quantified results and achievements''] else []) @
            (if formatting sects < 50
             then [js ''Formatting and structure could be improved for better readability'']
             else [])
      in if length weaknesses > 0 then weaknesses
         else [js ''Minor improvements needed for optimal impact''])"

section \<open>Target roles\<close>

text \<open>The analyzer object: its one mutable field is the text of the last call.\<close>

record analyzer =
  lastResumeText :: "jstring option"

definition industryRoles :: "(jstring \<times> jstring list) list" where
  "industryRoles =
    [(js ''technology'', map js [''Software Developer'', ''IT Specialist'', ''Technical Consultant'',
        ''Systems Analyst'', ''Web Developer'']),
     (js ''business'', map js [''Business Analyst'', ''Marketing Manager'', ''Sales Executive'',
        ''Operations Manager'', ''Project Coordinator'']),
     (js ''healthcare'', map js [''Healthcare Professional'', ''Medical Assistant'',
        ''Clinical Specialist'', ''Healthcare Administrator'', ''Patient Care Coordinator'']),
     (js ''education'', map js [''Educator'', ''Training Specialist'', ''Instructional Designer'',
        ''Academic Advisor'', ''Learning Consultant'']),
     (js ''engineering'', map js [''Engineer'', ''Technical Specialist'', ''Design Engineer'',
        ''Project Engineer'', ''Technical Consultant'']),
     (js ''creative'', map js [''Creative Professional'', ''Content Creator'', ''Media Specialist'',
        ''Design Consultant'', ''Creative Director'']),
     (js ''service'', map js [''Customer Service Professional'', ''Hospitality Manager'',
        ''Service Coordinator'', ''Client Relations Specialist'', ''Operations Associate'']),
     (js ''legal'', map js [''Legal Professional'', ''Paralegal'', ''Legal Assistant'',
        ''Compliance Specialist'', ''Legal Consultant'']),
     (js ''government'', map js [''Public Service Professional'', ''Administrative Officer'',
        ''Government Specialist'', ''Public Policy Assistant'', ''Civil Service Professional'']),
     (js ''finance'', map js [''Financial Professional'', ''Accounting Specialist'',
        ''Financial Analyst'', ''Banking Professional'', ''Investment Associate'']),
     (js ''general'', map js [''Professional'', ''Specialist'', ''Coordinator'', ''Associate'',
        ''Consultant''])]"

definition experienceRoles :: "(jstring \<times> jstring list) list" where
  "experienceRoles =
    [(js ''senior'', map js [''Senior'', ''Lead'', ''Manager'', ''Director'', ''Head'']),
     (js ''mid'', map js [''Specialist'', ''Coordinator'', ''Analyst'', ''Professional'',
        ''Consultant'']),
     (js ''entry'', map js [''Associate'', ''Assistant'', ''Junior'', ''Trainee'', ''Coordinator''])]"

text \<open>\<open>[...new Set(roles)]\<close>: the elements are added to the set one after the other, an
  element that is in the set already is skipped, and the set is read in insertion order.\<close>

definition uniq :: "'a list \<Rightarrow> 'a list" where
  "uniq xs = foldl (\<lambda>seen x. if List.member seen x then seen else seen @ [x]) [] xs"

text \<open>The \<open>primaryIndustry\<close> that \<open>suggestRoles\<close> detects, from \<open>this.lastResumeText || ''\<close>.\<close>

definition roleIndustry :: "runtime \<Rightarrow> analyzer \<Rightarrow> jstring" where
  "roleIndustry R this =
     (let tokens = preprocessText R
            (case lastResumeText this of None \<Rightarrow> [] | Some t \<Rightarrow> t)
      in detectIndustry roleIndustryIndicators tokens)"

text \<open>\<open>suggestRoles\<close> up to the last line: the list \<open>roles\<close> before it is deduplicated.\<close>

definition candidateRoles :: "runtime \<Rightarrow> analyzer \<Rightarrow> sections \<Rightarrow> jstring list \<Rightarrow> jstring list" where
  "candidateRoles R this sects primarySkills =
     (let primaryIndustry = roleIndustry R this;
          experienceLevel = (if experience sects \<ge> 70 then js ''senior''
                             else if experience sects \<ge> 40 then js ''mid'' else js ''entry'');
          baseRoles = lookupOr industryRoles primaryIndustry (js ''general'');
          expPrefixes = lookupOr experienceRoles experienceLevel (js ''entry'');
          roles = map (\<lambda>(index, baseRole).
                         if experienceLevel \<noteq> js ''entry'' \<and> index < length expPrefixes
                         then (expPrefixes ! index) @ js '' '' @ baseRole
                         else baseRole)
                    (filter (\<lambda>(index, baseRole). index < 3) (zip [0 ..< length baseRoles] baseRoles));
          roles = roles @ [js ''Professional'', js ''Specialist'']
      in roles)"

definition suggestRoles :: "runtime \<Rightarrow> analyzer \<Rightarrow> sections \<Rightarrow> jstring list \<Rightarrow> jstring list" where
  "suggestRoles R this sects primarySkills =
     take 8 (uniq (candidateRoles R this sects primarySkills))"

section \<open>JavaScript numbers\<close>

text \<open>
  A number is an IEEE 754 binary64 value. The model represents a finite double by the
  rational it denotes; an arithmetic operation computes the exact result and rounds it
  to the nearest double, ties to even (\<open>fl\<close>). \<open>expo x\<close> is the binary exponent of \<open>x\<close>,
  the spacing of the doubles around \<open>x\<close> is \<open>2 powi (expo x - 52)\<close>, and below
  \<open>2 powi (- 1022)\<close> the spacing stays that of the subnormals. Overflow is not modelled:
  every number the analyzer computes is far below \<open>2 ^ 1024\<close>.
\<close>

type_synonym number = rat

definition expo :: "rat \<Rightarrow> int" where
  "expo x = (case quotient_of \<bar>x\<bar> of (p, q) \<Rightarrow>
     (let d = bitlen p - bitlen q in if 2 powi d \<le> \<bar>x\<bar> then d else d - 1))"

definition round_ties_even :: "rat \<Rightarrow> int" where
  "round_ties_even y = (let f = \<lfloor>y\<rfloor>; r = y - of_int f in
     if r < 1/2 then f else if 1/2 < r then f + 1 else if even f then f else f + 1)"

definition fl :: "rat \<Rightarrow> number" where
  "fl x = (let u = 2 powi (max (expo x) (- 1022) - 52) in of_int (round_ties_even (x / u)) * u)"

definition fadd :: "number \<Rightarrow> number \<Rightarrow> number" where
  "fadd a b = fl (a + b)"

definition fmul :: "number \<Rightarrow> number \<Rightarrow> number" where
  "fmul a b = fl (a * b)"

definition fdiv :: "number \<Rightarrow> number \<Rightarrow> number" where
  "fdiv a b = fl (a / b)"

text \<open>\<open>Math.round\<close>: the nearest integer, the upper one of two that are equally near.\<close>

definition Math_round :: "number \<Rightarrow> int" where
  "Math_round x = \<lfloor>x + 1/2\<rfloor>"

section \<open>Overall score\<close>

text \<open>The weighted sum of \<open>analyzeResume\<close>, with the decimal literals rounded to doubles and
  the sum taken from left to right.\<close>

definition overallScore :: "sections \<Rightarrow> int" where
  "overallScore sects =
     Math_round
       (fadd (fadd (fadd (fadd (fadd
          (fmul (of_int (skills sects)) (fl (25/100)))
          (fmul (of_int (experience sects)) (fl (25/100))))
          (fmul (of_int (education sects)) (fl (15/100))))
          (fmul (of_int (projects sects)) (fl (15/100))))
          (fmul (of_int (achievements sects)) (fl (10/100))))
          (fmul (of_int (formatting sects)) (fl (10/100))))"

section \<open>Salary estimate\<close>

record salaryBand =
  range_min :: int
  range_max :: int

definition baseRanges :: "(jstring \<times> salaryBand) list" where
  "baseRanges =
    [(js ''Entry Level'', \<lparr> range_min = 45000, range_max = 75000 \<rparr>),
     (js ''Mid Level'', \<lparr> range_min = 75000, range_max = 125000 \<rparr>),
     (js ''Senior Level'', \<lparr> range_min = 125000, range_max = 185000 \<rparr>)]"

text \<open>
  \<open>baseRanges[experienceLevel]\<close> reads a property of an object literal, so a name that
  the literal does not define is looked up on \<open>Object.prototype\<close>. These are the names
  defined there; each of them yields a function or an object, which is truthy and has
  neither a \<open>min\<close> nor a \<open>max\<close>.
\<close>

definition objectPrototypeNames :: "jstring list" where
  "objectPrototypeNames = map js [''constructor'', ''__defineGetter__'', ''__defineSetter__'',
     ''hasOwnProperty'', ''__lookupGetter__'', ''__lookupSetter__'', ''isPrototypeOf'',
     ''propertyIsEnumerable'', ''toString'', ''valueOf'', ''__proto__'', ''toLocaleString'']"

datatype 'a property = Own 'a | Inherited | Absent

definition getProperty :: "(jstring \<times> 'a) list \<Rightarrow> jstring \<Rightarrow> 'a property" where
  "getProperty obj key =
     (case map_of obj key of Some v \<Rightarrow> Own v
      | None \<Rightarrow> if List.member objectPrototypeNames key then Inherited else Absent)"

text \<open>
  The two numbers that \<open>estimateSalary\<close> formats: \<open>Math.round(range.min * multiplier)\<close> and
  \<open>Math.round(range.max * multiplier)\<close>. They are \<open>NaN\<close> (here \<open>None\<close>) when \<open>range\<close> is an
  inherited member.
\<close>

definition salaryBounds :: "int \<Rightarrow> jstring \<Rightarrow> (int \<times> int) option" where
  "salaryBounds score experienceLevel =
     (let range = (case getProperty baseRanges experienceLevel of
                     Absent \<Rightarrow> getProperty baseRanges (js ''Entry Level'')
                   | p \<Rightarrow> p);
          multiplier = min 1 (fadd (fdiv (of_int score) 100) (fl (2/10)))
      in case range of
           Own b \<Rightarrow> Some (Math_round (fmul (of_int (range_min b)) multiplier),
                           Math_round (fmul (of_int (range_max b)) multiplier))
         | _ \<Rightarrow> None)"

record salary =
  salaryRange :: jstring
  justification :: jstring

definition estimateSalary :: "runtime \<Rightarrow> int \<Rightarrow> jstring \<Rightarrow> salary" where
  "estimateSalary R score experienceLevel =
     (let (lo, hi) = (case salaryBounds score experienceLevel of
                        Some (a, b) \<Rightarrow> (toLocaleString R (Some a), toLocaleString R (Some b))
                      | None \<Rightarrow> (toLocaleString R None, toLocaleString R None))
      in \<lparr> salaryRange = js ''$'' @ lo @ js '' - $'' @ hi,
           justification = js ''Based on '' @ toLowerCase experienceLevel @
             js '' experience and comprehensive skill assessment score of '' @ showInt score \<rparr>)"

section \<open>The analysis\<close>

record scoreCard = sections +
  overall :: int

record report =
  executiveSummary :: jstring
  scores :: scoreCard
  strengths :: "jstring list"
  weaknesses :: "jstring list"
  experienceLevel :: jstring
  primarySkills :: "jstring list"
  detailedRecommendations :: "recommendation list"
  roadmap :: "roadmapItem list"
  targetRoles :: "jstring list"
  salaryExpectation :: salary

text \<open>
  The body of the \<open>try\<close> block of \<open>analyzeResume\<close>. The feature vector that the source
  computes first is never read and is left out. Two statements of the block can throw:
  the check of the length, and the call of \<open>classifyExperienceLevel\<close>, which comes after
  the scores, the recommendations and the roadmap and before everything else.
\<close>

definition tryBlock :: "runtime \<Rightarrow> analyzer \<Rightarrow> jstring \<Rightarrow> error + report" where
  "tryBlock R this resumeText =
     (if resumeText = [] \<or> length (trim resumeText) < 100
      then Inl (Error (js ''Resume content is too short or empty''))
      else
        (let sects = scoreSections R resumeText;
             overallScore = overallScore sects;
             recommendations = generateRecommendations R resumeText sects;
             roadmap = generateRoadmap R resumeText sects
         in case classifyExperienceLevel R (experience sects) resumeText of
              Inl e \<Rightarrow> Inl e
            | Inr level \<Rightarrow>
        (let experienceLevel = level;
             primarySkills = detectPrimarySkills R resumeText
         in Inr \<lparr> executiveSummary =
                     generateSummary resumeText overallScore experienceLevel primarySkills,
                   scores = \<lparr> skills = Math_round (of_int (skills sects)),
                              experience = Math_round (of_int (experience sects)),
                              education = Math_round (of_int (education sects)),
                              projects = Math_round (of_int (projects sects)),
                              formatting = Math_round (of_int (formatting sects)),
                              achievements = Math_round (of_int (achievements sects)),
                              overall = overallScore \<rparr>,
                   strengths = identifyStrengths sects primarySkills,
                   weaknesses = identifyWeaknesses sects,
                   experienceLevel = experienceLevel,
                   primarySkills = primarySkills,
                   detailedRecommendations = recommendations,
                   roadmap = roadmap,
                   targetRoles = suggestRoles R this sects primarySkills,
                   salaryExpectation = estimateSalary R overallScore experienceLevel \<rparr>)))"

text \<open>
  \<open>analyzeResume\<close>: the text is stored on the analyzer, then the \<open>try\<close> block runs, and the
  \<open>catch\<close> clause rethrows whatever was thrown inside it as a new \<open>Error\<close> whose message is
  prefixed. The result is the settled promise together with the analyzer afterwards.
\<close>

definition analyzeResume :: "runtime \<Rightarrow> analyzer \<Rightarrow> jstring \<Rightarrow> (error + report) \<times> analyzer" where
  "analyzeResume R this resumeText =
     (let this = this\<lparr> lastResumeText := Some resumeText \<rparr>
      in (case tryBlock R this resumeText of
            Inl e \<Rightarrow> Inl (Error (js ''Failed to analyze resume: '' @ message e))
          | Inr result \<Rightarrow> Inr result,
          this))"

section \<open>A runtime for examples\<close>

text \<open>
  \<open>natural.WordTokenizer\<close> splits its argument at every run of characters outside
  \<open>A-Z\<close>, \<open>a-z\<close>, the Cyrillic letters U+0410 to U+044F, \<open>0-9\<close> and the underscore, and
  drops the empty pieces.
\<close>

definition tokenChar :: cls where
  "tokenChar = [(0x41, 0x5A), (0x61, 0x7A), (0x410, 0x44F), (0x30, 0x39), (0x5F, 0x5F)]"

fun wordPieces :: "jstring \<Rightarrow> jstring \<Rightarrow> jstring list" where
  "wordPieces cur [] = (if cur = [] then [] else [cur])"
| "wordPieces cur (c # cs) =
     (if in_cls tokenChar c then wordPieces (cur @ [c]) cs
      else (if cur = [] then [] else [cur]) @ wordPieces [] cs)"

definition wordTokenizer :: "jstring \<Rightarrow> jstring list" where
  "wordTokenizer s = wordPieces [] s"

text \<open>
  The runtime of the examples: the tokenizer above, a stop-word filter that removes
  nothing, a stemmer that strips nothing, numbers printed without grouping, and spread
  calls of up to 120000 arguments.
\<close>

definition sampleRuntime :: runtime where
  "sampleRuntime = \<lparr> tokenize = wordTokenizer, removeStopwords = (\<lambda>tokens. tokens),
                      stem = (\<lambda>token. token),
                      toLocaleString = (\<lambda>n. case n of None \<Rightarrow> js ''NaN'' | Some v \<Rightarrow> showInt v),
                      maxArguments = 120000 \<rparr>"

definition newAnalyzer :: analyzer where
  "newAnalyzer = \<lparr> lastResumeText = None \<rparr>"

definition nurseResume :: jstring where
  "nurseResume = js ''Registered nurse with clinical experience in patient care at a city hospital. Trained new nurses and led the ward team.''"

section \<open>The documented properties\<close>

text \<open>The inputs that pass the check at the head of \<open>analyzeResume\<close>.\<close>

definition validInput :: "jstring \<Rightarrow> bool" where
  "validInput resumeText = (\<not> (resumeText = [] \<or> length (trim resumeText) < 100))"

text \<open>The range of a section score.\<close>

definition inRange :: "'a sections_scheme \<Rightarrow> bool" where
  "inRange sects =
     (0 \<le> skills sects \<and> skills sects \<le> 100 \<and> 0 \<le> experience sects \<and> experience sects \<le> 100 \<and>
      0 \<le> education sects \<and> education sects \<le> 100 \<and> 0 \<le> projects sects \<and> projects sects \<le> 100 \<and>
      0 \<le> formatting sects \<and> formatting sects \<le> 100 \<and>
      0 \<le> achievements sects \<and> achievements sects \<le> 100)"

text \<open>The documented weighted sum, in exact arithmetic.\<close>

definition weightedSum :: "'a sections_scheme \<Rightarrow> rat" where
  "weightedSum sects =
     of_int (skills sects) * (25/100) + of_int (experience sects) * (25/100) +
     of_int (education sects) * (15/100) + of_int (projects sects) * (15/100) +
     of_int (achievements sects) * (10/100) + of_int (formatting sects) * (10/100)"

text \<open>The documented multiplier of the salary band, in exact arithmetic.\<close>

definition multiplier :: "int \<Rightarrow> rat" where
  "multiplier score = min 1 (of_int score / 100 + 2/10)"

text \<open>The documented salary bands: Entry, Mid and Senior, and Entry for any other tier.\<close>

definition documentedBand :: "jstring \<Rightarrow> salaryBand" where
  "documentedBand tier =
     (if tier = js ''Mid Level'' then \<lparr> range_min = 75000, range_max = 125000 \<rparr>
      else if tier = js ''Senior Level'' then \<lparr> range_min = 125000, range_max = 185000 \<rparr>
      else \<lparr> range_min = 45000, range_max = 75000 \<rparr>)"

text \<open>A text with three year mentions, and an engine whose spread calls take two arguments.\<close>

definition yearsResume :: jstring where
  "yearsResume = js ''Nurse with 3 years in surgery, 2 years in pediatrics and 4 years in emergency care at the city general hospital.''"

definition smallStackRuntime :: runtime where
  "smallStackRuntime = sampleRuntime\<lparr> maxArguments := 2 \<rparr>"

definition seniorResume :: jstring where
  "seniorResume = js ''Software developer with 7 years of experience building web applications in Java and React for retail clients.''"

text \<open>The documented order of the industries.\<close>

definition industryOrder :: "jstring list" where
  "industryOrder = map js [''technology'', ''business'', ''healthcare'', ''education'',
     ''engineering'', ''creative'', ''service'', ''legal'', ''government'', ''finance'']"

definition taxResume :: jstring where
  "taxResume = js ''tax tax tax tax tax tax tax tax tax tax tax tax tax tax tax tax tax tax tax tax tax tax tax tax tax tax''"

text \<open>A text of exactly 100 characters between leading and trailing white space.\<close>

definition hundredResume :: jstring where
  "hundredResume = js ''  Registered nurse with ten years of clinical experience in patient care and ward team leadership, RN.  ''"

text \<open>
  The quantification signals that the documentation names: a digit, a percent sign, a
  dollar sign, or one of the verbs of the pattern, in upper or lower case.
\<close>

definition quantificationVerbs :: "jstring list" where
  "quantificationVerbs = map js [''increase'', ''decrease'', ''improve'', ''reduce'', ''save'',
     ''generate'']"

definition occursIgnoringCase :: "jstring \<Rightarrow> jstring \<Rightarrow> bool" where
  "occursIgnoringCase verb text =
     list_ex (\<lambda>i. lit_match True (drop i text) verb) [0 ..< Suc (length text)]"

definition documentedSignal :: "jstring \<Rightarrow> bool" where
  "documentedSignal text =
     (list_ex (\<lambda>c. in_cls digit c \<or> c = 0x25 \<or> c = 0x24) text \<or>
      list_ex (\<lambda>verb. occursIgnoringCase verb text) quantificationVerbs)"

definition cppResume :: jstring where
  "cppResume = js ''C++ and Java developer. Built billing services, led code reviews and mentored junior engineers across teams.''"

definition symbolsText :: jstring where
  "symbolsText = js ''C++ C# Node.js''"

section \<open>Rounding to doubles\<close>

lemma round_ties_even_err: "\<bar>of_int (round_ties_even y) - y\<bar> \<le> 1/2"
  unfolding round_ties_even_def Let_def by (auto simp: abs_if not_less; linarith)

lemma quot_pos:
  assumes "x \<noteq> 0" "quotient_of \<bar>x\<bar> = (p, q)"
  shows "0 < p" "0 < q" "\<bar>x\<bar> = of_int p / of_int q"
proof -
  show q: "0 < q" using assms(2) by (rule quotient_of_denom_pos)
  show e: "\<bar>x\<bar> = of_int p / of_int q" using assms(2) by (rule quotient_of_div)
  have "0 < \<bar>x\<bar>" using assms(1) by simp
  then show "0 < p" using q e by (simp add: zero_less_divide_iff)
qed

lemma expo_le: 
  assumes "x \<noteq> 0" shows "2 powi (expo x) \<le> \<bar>x\<bar>"
proof -
  obtain p q where pq: "quotient_of \<bar>x\<bar> = (p, q)" by (cases "quotient_of \<bar>x\<bar>")
  note P = quot_pos[OF assms pq]
  let ?d = "bitlen p - bitlen q"
  show ?thesis
  proof (cases "(2::rat) powi ?d \<le> \<bar>x\<bar>")
    case True then show ?thesis by (simp add: expo_def pq)
  next
    case False
    then have ex: "expo x = ?d - 1" by (simp add: expo_def pq)
    have bp: "2 ^ nat (bitlen p - 1) \<le> p" using bitlen_bounds[OF P(1)] by simp
    have bq: "q < 2 ^ nat (bitlen q)" using bitlen_bounds[OF P(2)] by simp
    have bp1: "1 \<le> bitlen p" using P(1) by (simp add: bitlen_alt_def)
    have bq1: "1 \<le> bitlen q" using P(2) by (simp add: bitlen_alt_def)
    have rp: "(2::rat) powi (bitlen p - 1) \<le> of_int p"
    proof -
      have "(of_int (2 ^ nat (bitlen p - 1)) :: rat) \<le> of_int p" using bp by (simp only: of_int_le_iff)
      then show ?thesis using bp1 by (simp add: power_int_def)
    qed
    have rq: "of_int q \<le> (2::rat) powi (bitlen q)"
    proof -
      have "(of_int q :: rat) \<le> of_int (2 ^ nat (bitlen q))" using bq by (simp only: of_int_le_iff less_imp_le)
      then show ?thesis using bq1 by (simp add: power_int_def)
    qed
    have "(2::rat) powi (?d - 1) = 2 powi (bitlen p - 1) / 2 powi (bitlen q)"
      by (simp add: power_int_diff)
    also have "\<dots> \<le> of_int p / of_int q"
      using rp rq P by (intro frac_le) auto
    finally show ?thesis using ex P(3) by simp
  qed
qed

lemma fl_err_int:
  assumes "\<bar>x\<bar> \<le> 2 powi k" "- 1022 \<le> k"
  shows "\<bar>fl x - x\<bar> \<le> 2 powi (k - 53)"
proof (cases "x = 0")
  case True
  then show ?thesis by (simp add: fl_def round_ties_even_def)
next
  case nz: False
  define e where "e = max (expo x) (- 1022)"
  define u :: rat where "u = 2 powi (e - 52)"
  have u: "0 < u" by (simp add: u_def)
  have fe: "fl x = of_int (round_ties_even (x / u)) * u" by (simp add: fl_def Let_def e_def u_def)
  have "fl x - x = (of_int (round_ties_even (x / u)) - x / u) * u" using u by (simp add: fe algebra_simps)
  then have "\<bar>fl x - x\<bar> = \<bar>of_int (round_ties_even (x / u)) - x / u\<bar> * u" using u by (simp add: abs_mult)
  also have "\<dots> \<le> 1/2 * u" using round_ties_even_err[of "x / u"] u by (intro mult_right_mono) auto
  also have "\<dots> = 2 powi (e - 53)" 
  proof -
    have "(2::rat) powi (e - 52) = 2 powi (e - 53 + 1)" by simp
    also have "\<dots> = 2 powi (e - 53) * 2" by (subst power_int_add) auto
    finally show ?thesis by (simp add: u_def)
  qed
  finally have A: "\<bar>fl x - x\<bar> \<le> 2 powi (e - 53)" .
  have "e \<le> k"
  proof (rule ccontr)
    assume "\<not> e \<le> k"
    then have ek: "k < expo x" "x \<noteq> 0" using assms(2) nz by (auto simp: e_def)
    have "(2::rat) powi (expo x) \<le> 2 powi k" using expo_le[OF ek(2)] assms(1) by linarith
    moreover have "(2::rat) powi k < 2 powi (expo x)"
      using ek(1) by (intro power_int_strict_increasing) auto
    ultimately show False by linarith
  qed
  then have "(2::rat) powi (e - 53) \<le> 2 powi (k - 53)" by (intro power_int_increasing) auto
  then show ?thesis using A by linarith
qed

lemma fl_err:
  assumes "\<bar>x\<bar> \<le> 2 ^ k"
  shows "\<bar>fl x - x\<bar> \<le> 2 ^ k / 2 ^ 53"
proof -
  have "\<bar>x\<bar> \<le> 2 powi (int k)" using assms by simp
  then have "\<bar>fl x - x\<bar> \<le> 2 powi (int k - 53)" by (rule fl_err_int) simp
  also have "(2::rat) powi (int k - 53) = 2 ^ k / 2 ^ 53"
    by (simp add: power_int_diff)
  finally show ?thesis .
qed



lemma Math_round_of_int: "Math_round (of_int n) = n"
  unfolding Math_round_def by linarith

lemma fl_bound:
  assumes "\<bar>x\<bar> \<le> 2 ^ k"
  shows "\<bar>fl x\<bar> \<le> 2 ^ k + 2 ^ k / 2 ^ 53"
  using fl_err[OF assms] assms by linarith

lemma lit_err: "\<bar>w\<bar> \<le> 1 \<Longrightarrow> \<bar>fl w - w\<bar> \<le> 1 / 2 ^ 53"
  using fl_err[of w 0] by simp

lemma scaled_err:
  fixes n c w d :: rat
  assumes "0 \<le> n" "n \<le> 100" "\<bar>c - w\<bar> \<le> d"
  shows "\<bar>n * c - n * w\<bar> \<le> 100 * d"
proof -
  have "\<bar>n * c - n * w\<bar> = n * \<bar>c - w\<bar>" using assms(1) by (simp add: abs_mult flip: right_diff_distrib)
  also have "\<dots> \<le> 100 * d" using assms by (intro mult_mono) auto
  finally show ?thesis .
qed

lemma fl_err32: "\<bar>x\<bar> \<le> 32 \<Longrightarrow> \<bar>fl x - x\<bar> \<le> 1 / 281474976710656"
  using fl_err[of x 5] by simp

lemma fl_err128: "\<bar>x\<bar> \<le> 128 \<Longrightarrow> \<bar>fl x - x\<bar> \<le> 1 / 70368744177664"
  using fl_err[of x 7] by simp

lemma lit_err': "\<bar>w\<bar> \<le> 1 \<Longrightarrow> \<bar>fl w - w\<bar> \<le> 1 / 9007199254740992"
  using fl_err[of w 0] by simp

lemma term_err:
  fixes n :: int and w :: rat
  assumes n: "0 \<le> n" "n \<le> 100" and w: "0 \<le> w" "w \<le> 1/4"
  shows "\<bar>fmul (of_int n) (fl w) - of_int n * w\<bar> \<le> 2 / 70368744177664"
proof -
  have c: "\<bar>fl w - w\<bar> \<le> 1 / 9007199254740992" using w by (intro lit_err') auto
  have n': "(0::rat) \<le> of_int n" "(of_int n :: rat) \<le> 100" using n by auto
  have e1: "\<bar>of_int n * fl w - of_int n * w\<bar> \<le> 100 * (1 / 9007199254740992)"
    by (rule scaled_err[OF n' c])
  have "of_int n * w \<le> 100 * (1/4)" using n' w by (intro mult_mono) auto
  moreover have "0 \<le> of_int n * w" using n' w by simp
  ultimately have "\<bar>of_int n * fl w\<bar> \<le> 32" using e1 by linarith
  from fl_err32[OF this] have "\<bar>fl (of_int n * fl w) - of_int n * fl w\<bar> \<le> 1 / 281474976710656" .
  then show ?thesis using e1 unfolding fmul_def by linarith
qed

lemma add_err:
  fixes a b x y :: rat
  assumes "\<bar>a - x\<bar> \<le> da" "\<bar>b - y\<bar> \<le> db" "0 \<le> x" "0 \<le> y" "x + y \<le> 100" "da + db \<le> 1"
  shows "\<bar>fadd a b - (x + y)\<bar> \<le> da + db + 1 / 70368744177664"
proof -
  have "\<bar>a + b\<bar> \<le> 128" using assms by linarith
  from fl_err128[OF this] have "\<bar>fl (a + b) - (a + b)\<bar> \<le> 1 / 70368744177664" .
  then show ?thesis using assms unfolding fadd_def by linarith
qed

lemma float_sum_err:
  assumes "inRange sects"
  shows "\<exists>y. overallScore sects = Math_round y \<and> \<bar>y - weightedSum sects\<bar> \<le> 1 / 2 ^ 40"
proof -
  define s e d p a f where "s = skills sects" and "e = experience sects" and "d = education sects"
    and "p = projects sects" and "a = achievements sects" and "f = formatting sects"
  have r: "0 \<le> s" "s \<le> 100" "0 \<le> e" "e \<le> 100" "0 \<le> d" "d \<le> 100" "0 \<le> p" "p \<le> 100" "0 \<le> a" "a \<le> 100" "0 \<le> f" "f \<le> 100"
    using assms by (auto simp: inRange_def s_def e_def d_def p_def a_def f_def)
  let ?S = "of_int s * (25/100) :: rat" and ?E = "of_int e * (25/100) :: rat" and ?D = "of_int d * (15/100) :: rat"
  and ?P = "of_int p * (15/100) :: rat" and ?A = "of_int a * (10/100) :: rat" and ?F = "of_int f * (10/100) :: rat"
  have b: "0 \<le> ?S" "?S \<le> 25" "0 \<le> ?E" "?E \<le> 25" "0 \<le> ?D" "?D \<le> 15" "0 \<le> ?P" "?P \<le> 15" "0 \<le> ?A" "?A \<le> 10" "0 \<le> ?F" "?F \<le> 10"
    using r by auto
  have ts: "\<bar>fmul (of_int s) (fl (25/100)) - ?S\<bar> \<le> 2 / 70368744177664" using term_err[of s "25/100"] r by simp
  have te: "\<bar>fmul (of_int e) (fl (25/100)) - ?E\<bar> \<le> 2 / 70368744177664" using term_err[of e "25/100"] r by simp
  have td: "\<bar>fmul (of_int d) (fl (15/100)) - ?D\<bar> \<le> 2 / 70368744177664" using term_err[of d "15/100"] r by simp
  have tp: "\<bar>fmul (of_int p) (fl (15/100)) - ?P\<bar> \<le> 2 / 70368744177664" using term_err[of p "15/100"] r by simp
  have ta: "\<bar>fmul (of_int a) (fl (10/100)) - ?A\<bar> \<le> 2 / 70368744177664" using term_err[of a "10/100"] r by simp
  have tf: "\<bar>fmul (of_int f) (fl (10/100)) - ?F\<bar> \<le> 2 / 70368744177664" using term_err[of f "10/100"] r by simp
  define y1 where "y1 = fadd (fmul (of_int s) (fl (25/100))) (fmul (of_int e) (fl (25/100)))"
  define y2 where "y2 = fadd y1 (fmul (of_int d) (fl (15/100)))"
  define y3 where "y3 = fadd y2 (fmul (of_int p) (fl (15/100)))"
  define y4 where "y4 = fadd y3 (fmul (of_int a) (fl (10/100)))"
  define y5 where "y5 = fadd y4 (fmul (of_int f) (fl (10/100)))"
  have a1: "\<bar>y1 - (?S + ?E)\<bar> \<le> 5 / 70368744177664"
    unfolding y1_def using add_err[OF ts te] b by linarith
  have a2: "\<bar>y2 - (?S + ?E + ?D)\<bar> \<le> 8 / 70368744177664"
    unfolding y2_def using add_err[OF a1 td] b by linarith
  have a3: "\<bar>y3 - (?S + ?E + ?D + ?P)\<bar> \<le> 11 / 70368744177664"
    unfolding y3_def using add_err[OF a2 tp] b by linarith
  have a4: "\<bar>y4 - (?S + ?E + ?D + ?P + ?A)\<bar> \<le> 14 / 70368744177664"
    unfolding y4_def using add_err[OF a3 ta] b by linarith
  have a5: "\<bar>y5 - (?S + ?E + ?D + ?P + ?A + ?F)\<bar> \<le> 17 / 70368744177664"
    unfolding y5_def using add_err[OF a4 tf] b by linarith
  have o: "overallScore sects = Math_round y5"
    by (simp add: overallScore_def y5_def y4_def y3_def y2_def y1_def s_def e_def d_def p_def a_def f_def)
  have w: "weightedSum sects = ?S + ?E + ?D + ?P + ?A + ?F"
    by (simp add: weightedSum_def s_def e_def d_def p_def a_def f_def)
  have "\<bar>y5 - weightedSum sects\<bar> \<le> 1 / 2 ^ 40" using a5 unfolding w by simp
  with o show ?thesis by blast
qed

lemma Math_round_near:
  fixes y :: rat and n :: int
  assumes "\<bar>y - of_int n\<bar> < 1/2"
  shows "Math_round y = n"
  unfolding Math_round_def using assms by linarith

lemma Math_round_half_grid:
  fixes y :: rat and k :: int
  assumes "\<bar>y - of_int k / 20\<bar> \<le> 1 / 2 ^ 40"
  shows "\<bar>of_int (Math_round y) - of_int k / 20\<bar> \<le> (1/2 :: rat)"
proof -
  define z where "z = Math_round y"
  have e: "\<bar>y - of_int k / 20\<bar> \<le> 1 / 1099511627776" using assms by simp
  have z: "of_int z \<le> y + 1/2" "y + 1/2 < of_int z + 1" unfolding z_def Math_round_def by linarith+
  have up: "of_int z - of_int k / 20 \<le> (1/2 :: rat)"
  proof (rule ccontr)
    assume "\<not> ?thesis"
    then have "(of_int (20 * z - k) :: rat) > of_int 10" by simp
    then have "20 * z - k > 10" by (simp only: of_int_less_iff)
    then have "20 * z - k \<ge> 11" by simp
    then have "(of_int (20 * z - k) :: rat) \<ge> of_int 11" by (simp only: of_int_le_iff)
    then have "of_int z - of_int k / 20 \<ge> (11/20 :: rat)" by simp
    with z e show False by linarith
  qed
  have lo: "of_int k / 20 - of_int z \<le> (1/2 :: rat)"
  proof (rule ccontr)
    assume "\<not> ?thesis"
    then have "(of_int (k - 20 * z) :: rat) > of_int 10" by simp
    then have "k - 20 * z > 10" by (simp only: of_int_less_iff)
    then have "k - 20 * z \<ge> 11" by simp
    then have "(of_int (k - 20 * z) :: rat) \<ge> of_int 11" by (simp only: of_int_le_iff)
    then have "of_int k / 20 - of_int z \<ge> (11/20 :: rat)" by simp
    with z e show False by linarith
  qed
  from up lo show ?thesis unfolding z_def by linarith
qed

lemma weightedSum_grid:
  "weightedSum sects = of_int (5 * skills sects + 5 * experience sects + 3 * education sects
      + 3 * projects sects + 2 * achievements sects + 2 * formatting sects) / 20"
  by (simp add: weightedSum_def field_simps)

lemma overallScore_nearest:
  assumes "inRange sects"
  shows "\<bar>of_int (overallScore sects) - weightedSum sects\<bar> \<le> 1/2"
proof -
  obtain y where y: "overallScore sects = Math_round y" "\<bar>y - weightedSum sects\<bar> \<le> 1 / 2 ^ 40"
    using float_sum_err[OF assms] by blast
  have "\<bar>y - of_int (5 * skills sects + 5 * experience sects + 3 * education sects
      + 3 * projects sects + 2 * achievements sects + 2 * formatting sects) / 20\<bar> \<le> 1 / 2 ^ 40"
    using y(2) unfolding weightedSum_grid .
  from Math_round_half_grid[OF this] show ?thesis unfolding y(1) weightedSum_grid .
qed

lemma weightedSum_range:
  assumes "inRange sects"
  shows "0 \<le> weightedSum sects" "weightedSum sects \<le> 100"
  using assms unfolding inRange_def weightedSum_def by auto

lemma overallScore_range:
  assumes "inRange sects"
  shows "0 \<le> overallScore sects \<and> overallScore sects \<le> 100"
proof -
  have a: "\<bar>of_int (overallScore sects) - weightedSum sects\<bar> \<le> 1/2" by (rule overallScore_nearest[OF assms])
  have "(of_int (overallScore sects) :: rat) > - 1" using a weightedSum_range[OF assms] by linarith
  then have "(of_int (overallScore sects) :: rat) > of_int (- 1)" by simp
  then have 1: "overallScore sects > - 1" by (simp only: of_int_less_iff)
  have "(of_int (overallScore sects) :: rat) < 101" using a weightedSum_range[OF assms] by linarith
  then have "(of_int (overallScore sects) :: rat) < of_int 101" by simp
  then have 2: "overallScore sects < 101" by (simp only: of_int_less_iff)
  from 1 2 show ?thesis by simp
qed

lemma nearest_integer:
  fixes w :: rat and z n :: int
  assumes "\<bar>of_int z - w\<bar> \<le> 1/2"
  shows "\<bar>of_int z - w\<bar> \<le> \<bar>of_int n - w\<bar>"
proof (cases "n = z")
  case True then show ?thesis by simp
next
  case False
  then have "\<bar>n - z\<bar> \<ge> 1" by simp
  then have "(of_int \<bar>n - z\<bar> :: rat) \<ge> of_int 1" by (simp only: of_int_le_iff)
  then have "\<bar>(of_int n :: rat) - of_int z\<bar> \<ge> 1" by simp
  with assms show ?thesis by linarith
qed

lemma scaled_err18:
  fixes B m w d :: rat
  assumes "0 \<le> B" "B \<le> 262144" "\<bar>m - w\<bar> \<le> d"
  shows "\<bar>B * m - B * w\<bar> \<le> 262144 * d"
proof -
  have "\<bar>B * m - B * w\<bar> = B * \<bar>m - w\<bar>" using assms(1) by (simp add: abs_mult flip: right_diff_distrib)
  also have "\<dots> \<le> 262144 * d" using assms by (intro mult_mono) auto
  finally show ?thesis .
qed

lemma fl_err2: "\<bar>x\<bar> \<le> 2 \<Longrightarrow> \<bar>fl x - x\<bar> \<le> 2 / 9007199254740992"
  using fl_err[of x 1] by simp

lemma fl_err18: "\<bar>x\<bar> \<le> 262144 \<Longrightarrow> \<bar>fl x - x\<bar> \<le> 1 / 34359738368"
  using fl_err[of x 18] by simp

lemma multiplier_err:
  assumes "0 \<le> score" "score \<le> 100"
  shows "\<bar>min 1 (fadd (fdiv (of_int score) 100) (fl (2/10))) - multiplier score\<bar> \<le> 4 / 9007199254740992"
proof -
  have s: "(0::rat) \<le> of_int score / 100" "(of_int score :: rat) / 100 \<le> 1" using assms by auto
  have q: "\<bar>fl (of_int score / 100) - of_int score / 100\<bar> \<le> 1 / 9007199254740992"
    using s by (intro lit_err') linarith
  have c: "\<bar>fl (2/10) - 2/10\<bar> \<le> (1 / 9007199254740992 :: rat)" by (intro lit_err') simp
  have "\<bar>fl (of_int score / 100) + fl (2/10)\<bar> \<le> 2" using q c s by linarith
  from fl_err2[OF this] show ?thesis using q c unfolding fadd_def fdiv_def multiplier_def by linarith
qed

lemma scaled_bound:
  fixes B :: int
  assumes sc: "0 \<le> score" "score \<le> 100" and B: "0 \<le> B" "B \<le> 262144"
    and N: "(of_int N :: rat) = of_int B * multiplier score"
  shows "Math_round (fmul (of_int B) (min 1 (fadd (fdiv (of_int score) 100) (fl (2/10))))) = N"
proof -
  define m where "m = min 1 (fadd (fdiv (of_int score) 100) (fl (2/10)))"
  have me: "\<bar>m - multiplier score\<bar> \<le> 4 / 9007199254740992" unfolding m_def by (rule multiplier_err[OF sc])
  have B': "(0::rat) \<le> of_int B" "(of_int B :: rat) \<le> 262144" using B by auto
  have pe: "\<bar>of_int B * m - of_int B * multiplier score\<bar> \<le> 262144 * (4 / 9007199254740992)"
    by (rule scaled_err18[OF B' me])
  have m1: "m \<le> 1" unfolding m_def by simp
  have "multiplier score \<ge> 2/10" using sc unfolding multiplier_def by simp
  then have m0: "0 \<le> m" using me by linarith
  have "of_int B * m \<le> of_int B * 1" using m1 B' by (intro mult_left_mono) auto
  moreover have "0 \<le> of_int B * m" using m0 B' by simp
  ultimately have "\<bar>of_int B * m\<bar> \<le> 262144" using B' by linarith
  from fl_err18[OF this] have "\<bar>fl (of_int B * m) - of_int B * m\<bar> \<le> 1 / 34359738368" .
  then have "\<bar>fl (of_int B * m) - of_int N\<bar> < 1/2" using pe unfolding N by linarith
  then show ?thesis unfolding fmul_def m_def[symmetric] by (rule Math_round_near)
qed

section \<open>Section scores and the report\<close>

lemma countMentions_nonneg: "0 \<le> countMentions patterns tokens"
  by (simp add: countMentions_def)

lemma countMatchingTokens_nonneg: "0 \<le> countMatchingTokens keywords tokens"
  by (simp add: countMatchingTokens_def)

lemma countMatches_nonneg: "0 \<le> countMatches ci r text"
  by (simp add: countMatches_def)

lemma foldl_max_ge: "a \<le> foldl (\<lambda>acc k. max acc (f k)) (a::int) xs"
proof (induction xs arbitrary: a)
  case Nil
  show ?case by simp
next
  case (Cons x xs)
  have "a \<le> max a (f x)" by simp
  also have "\<dots> \<le> foldl (\<lambda>acc k. max acc (f k)) (max a (f x)) xs" by (rule Cons.IH)
  finally show ?case by simp
qed

lemma scoreSkillsSection_range: "0 \<le> scoreSkillsSection R text \<and> scoreSkillsSection R text \<le> 100"
proof -
  let ?t = "preprocessText R text"
  have "0 \<le> foldl (\<lambda>technicalScore keywords. max technicalScore (countMatchingTokens keywords ?t))
              0 (map snd skillCategories)" by (rule foldl_max_ge)
  then show ?thesis
    unfolding scoreSkillsSection_def Let_def using countMentions_nonneg[of _ ?t] by simp
qed

lemma scoreExperienceSection_range:
  "0 \<le> scoreExperienceSection R text \<and> scoreExperienceSection R text \<le> 100"
  using countMentions_nonneg[of _ "preprocessText R text"] countMatches_nonneg[of True timeRegex "text"]
  unfolding scoreExperienceSection_def Let_def by simp

lemma scoreEducationSection_range:
  "0 \<le> scoreEducationSection R text \<and> scoreEducationSection R text \<le> 100"
  using countMentions_nonneg[of _ "preprocessText R text"]
  unfolding scoreEducationSection_def Let_def by simp

lemma scoreProjectsSection_range:
  "0 \<le> scoreProjectsSection R text \<and> scoreProjectsSection R text \<le> 100"
  using countMentions_nonneg[of _ "preprocessText R text"]
  unfolding scoreProjectsSection_def Let_def by simp

lemma scoreAchievementsSection_range:
  "0 \<le> scoreAchievementsSection R text \<and> scoreAchievementsSection R text \<le> 100"
  using countMentions_nonneg[of _ "preprocessText R text"] countMatches_nonneg[of True quantifiedRegex "text"]
  unfolding scoreAchievementsSection_def Let_def by simp

lemma scoreFormatting_range: "35 \<le> scoreFormatting text \<and> scoreFormatting text \<le> 90"
  unfolding scoreFormatting_def Let_def by simp

lemma scoreSections_inRange: "inRange (scoreSections R text)"
  using scoreSkillsSection_range[of R "text"] scoreExperienceSection_range[of R "text"]
    scoreEducationSection_range[of R "text"] scoreProjectsSection_range[of R "text"]
    scoreAchievementsSection_range[of R "text"] scoreFormatting_range[of "text"]
  unfolding inRange_def scoreSections_def by simp

lemma analyzer_update: "(this::analyzer)\<lparr> lastResumeText := x \<rparr> = \<lparr> lastResumeText = x \<rparr>"
  by (cases this) simp

text \<open>A scan starts at most one match at each position.\<close>

lemma scan_length: "length (scan ci r s i) \<le> Suc (length s) - i"
proof (induction ci r s i rule: scan.induct)
  case (1 ci r s i)
  show ?case
  proof (cases "length s < i")
    case True
    then show ?thesis by (subst scan.simps) simp
  next
    case False
    show ?thesis
    proof (cases "ends ci s r i")
      case Nil
      from 1(1)[OF False Nil] False Nil show ?thesis by (subst scan.simps) simp
    next
      case (Cons j js)
      from 1(2)[OF False Cons] False Cons show ?thesis
        by (subst scan.simps) (cases "j \<le> i"; simp)
    qed
  qed
qed

lemma match_all_length: "length (match_all ci r s) \<le> Suc (length s)"
  using scan_length[of ci r s 0] by (simp add: match_all_def)

text \<open>
  \<open>classifyExperienceLevel\<close> returns when the year mentions are few enough for the spread
  call, which is so when the text itself is shorter than the limit of the engine, and
  throws otherwise.
\<close>

lemma classifyExperienceLevel_returns:
  assumes "int (length (match_all True yearsPattern text)) \<le> maxArguments R"
  shows "\<exists>level. classifyExperienceLevel R experienceScore text = Inr level"
  using assms by (simp add: classifyExperienceLevel_def Math_max_list_def Let_def)

lemma classifyExperienceLevel_throws:
  assumes "maxArguments R < int (length (match_all True yearsPattern text))"
    and "0 \<le> maxArguments R"
  shows "classifyExperienceLevel R experienceScore text =
           Inl (RangeError (js ''Maximum call stack size exceeded''))"
proof -
  from assms have "match_all True yearsPattern text \<noteq> []" by auto
  with assms show ?thesis by (simp add: classifyExperienceLevel_def Math_max_list_def Let_def)
qed

lemma few_matches:
  assumes "int (length text) < maxArguments R"
  shows "int (length (match_all True yearsPattern text)) \<le> maxArguments R"
  using match_all_length[of True yearsPattern "text"] assms by simp

text \<open>What \<open>analyzeResume\<close> does on each kind of input.\<close>

lemma analyzeResume_invalid:
  assumes "\<not> validInput resumeText"
  shows "fst (analyzeResume R this resumeText) =
           Inl (Error (js ''Failed to analyze resume: '' @ js ''Resume content is too short or empty''))"
  using assms by (auto simp: validInput_def analyzeResume_def tryBlock_def)

lemma analyzeResume_overflow:
  assumes "validInput resumeText"
    and "maxArguments R < int (length (match_all True yearsPattern resumeText))"
    and "0 \<le> maxArguments R"
  shows "fst (analyzeResume R this resumeText) =
           Inl (Error (js ''Failed to analyze resume: '' @ js ''Maximum call stack size exceeded''))"
  using assms(1) classifyExperienceLevel_throws[OF assms(2,3)]
  by (simp add: validInput_def analyzeResume_def tryBlock_def Let_def)

lemma analyzeResume_returns:
  assumes "validInput resumeText"
    and "int (length (match_all True yearsPattern resumeText)) \<le> maxArguments R"
  shows "\<exists>result. fst (analyzeResume R this resumeText) = Inr result"
proof -
  obtain level where
    "classifyExperienceLevel R (experience (scoreSections R resumeText)) resumeText = Inr level"
    using classifyExperienceLevel_returns[OF assms(2)] by blast
  with assms(1) show ?thesis
    by (simp add: validInput_def analyzeResume_def tryBlock_def Let_def)
qed

text \<open>The fields of a returned report.\<close>

lemma analyzeResume_report:
  assumes "fst (analyzeResume R this resumeText) = Inr result"
  shows "validInput resumeText \<and>
     skills (scores result) = skills (scoreSections R resumeText) \<and>
     experience (scores result) = experience (scoreSections R resumeText) \<and>
     education (scores result) = education (scoreSections R resumeText) \<and>
     projects (scores result) = projects (scoreSections R resumeText) \<and>
     formatting (scores result) = formatting (scoreSections R resumeText) \<and>
     achievements (scores result) = achievements (scoreSections R resumeText) \<and>
     overall (scores result) = overallScore (scoreSections R resumeText) \<and>
     classifyExperienceLevel R (experience (scoreSections R resumeText)) resumeText =
       Inr (experienceLevel result) \<and>
     primarySkills result = detectPrimarySkills R resumeText \<and>
     detailedRecommendations result =
       generateRecommendations R resumeText (scoreSections R resumeText) \<and>
     roadmap result = generateRoadmap R resumeText (scoreSections R resumeText) \<and>
     targetRoles result = suggestRoles R \<lparr> lastResumeText = Some resumeText \<rparr>
       (scoreSections R resumeText) (detectPrimarySkills R resumeText) \<and>
     salaryExpectation result = estimateSalary R (overallScore (scoreSections R resumeText))
       (experienceLevel result)"
proof -
  have v: "validInput resumeText"
    using assms by (auto simp: validInput_def analyzeResume_def tryBlock_def)
  obtain level where
    l: "classifyExperienceLevel R (experience (scoreSections R resumeText)) resumeText = Inr level"
    using assms v
    by (cases "classifyExperienceLevel R (experience (scoreSections R resumeText)) resumeText")
       (auto simp: validInput_def analyzeResume_def tryBlock_def Let_def)
  from assms v l show ?thesis
    by (auto simp: validInput_def analyzeResume_def tryBlock_def Let_def Math_round_of_int
          analyzer_update)
qed

lemma weightedSum_cong:
  "skills a = skills b \<Longrightarrow> experience a = experience b \<Longrightarrow> education a = education b \<Longrightarrow>
   projects a = projects b \<Longrightarrow> formatting a = formatting b \<Longrightarrow> achievements a = achievements b \<Longrightarrow>
   weightedSum a = weightedSum b"
  by (simp add: weightedSum_def)

lemma inRange_cong:
  "skills a = skills b \<Longrightarrow> experience a = experience b \<Longrightarrow> education a = education b \<Longrightarrow>
   projects a = projects b \<Longrightarrow> formatting a = formatting b \<Longrightarrow> achievements a = achievements b \<Longrightarrow>
   inRange a = inRange b"
  by (simp add: inRange_def)


lemma nurseResume_valid: "validInput nurseResume"
  by (simp add: validInput_def nurseResume_def js_def trim_def in_cls_def whiteSpace_def)

text \<open>
  A tie that the double arithmetic resolves downwards: the exact weighted sum of these
  scores is 13.5, the sum of the doubles is just below it, and \<open>Math.round\<close> returns 13.
\<close>

lemma overallScore_tie_rounds_down:
  "overallScore \<lparr> skills = 0, experience = 0, education = 0, projects = 62, formatting = 35,
                   achievements = 7 \<rparr> = 13"
  by code_simp

section \<open>Salary bounds\<close>

lemma band_lookup:
  assumes "\<not> List.member objectPrototypeNames tier"
  shows "(case getProperty baseRanges tier of
            Absent \<Rightarrow> getProperty baseRanges (js ''Entry Level'') | p \<Rightarrow> p)
         = Own (documentedBand tier)"
  using assms
  by (simp add: getProperty_def baseRanges_def documentedBand_def js_def)

lemma documentedBand_cases:
  "documentedBand tier = \<lparr> range_min = 75000, range_max = 125000 \<rparr> \<or>
   documentedBand tier = \<lparr> range_min = 125000, range_max = 185000 \<rparr> \<or>
   documentedBand tier = \<lparr> range_min = 45000, range_max = 75000 \<rparr>"
  by (simp add: documentedBand_def)

lemma multiplier_times_100:
  "multiplier score * 100 = of_int (min 100 (score + 20))"
proof (cases "score + 20 \<le> 100")
  case True
  then have "(of_int (score + 20) :: rat) \<le> of_int 100" by (simp only: of_int_le_iff)
  then have "(of_int score :: rat) / 100 + 2/10 \<le> 1" by simp
  then show ?thesis using True by (simp add: multiplier_def min_def)
next
  case False
  then have "100 < score + 20" by simp
  then have "(of_int 100 :: rat) < of_int (score + 20)" by (simp only: of_int_less_iff)
  then have "1 < (of_int score :: rat) / 100 + 2/10" by simp
  then show ?thesis using False by (simp add: multiplier_def min_def)
qed

lemma scaled_exact:
  assumes "B = 100 * b"
  shows "(of_int (b * min 100 (score + 20)) :: rat) = of_int B * multiplier score"
proof -
  have "(of_int B :: rat) * multiplier score = of_int b * (multiplier score * 100)"
    using assms by simp
  then show ?thesis by (simp add: multiplier_times_100)
qed

lemma salaryBounds_exact:
  assumes sc: "0 \<le> score" "score \<le> 100" and t: "\<not> List.member objectPrototypeNames tier"
  shows "salaryBounds score tier =
           Some (range_min (documentedBand tier) div 100 * min 100 (score + 20),
                 range_max (documentedBand tier) div 100 * min 100 (score + 20))"
proof -
  let ?b = "documentedBand tier"
  have d: "range_min ?b = 100 * (range_min ?b div 100)" "range_max ?b = 100 * (range_max ?b div 100)"
    "0 \<le> range_min ?b" "range_min ?b \<le> 262144" "0 \<le> range_max ?b" "range_max ?b \<le> 262144"
    using documentedBand_cases[of tier] by auto
  have lo: "Math_round (fmul (of_int (range_min ?b)) (min 1 (fadd (fdiv (of_int score) 100) (fl (2/10)))))
            = range_min ?b div 100 * min 100 (score + 20)"
    by (rule scaled_bound[OF sc d(3) d(4) scaled_exact[OF d(1)]])
  have hi: "Math_round (fmul (of_int (range_max ?b)) (min 1 (fadd (fdiv (of_int score) 100) (fl (2/10)))))
            = range_max ?b div 100 * min 100 (score + 20)"
    by (rule scaled_bound[OF sc d(5) d(6) scaled_exact[OF d(2)]])
  show ?thesis
    unfolding salaryBounds_def Let_def band_lookup[OF t] using lo hi by simp
qed

lemma classify_senior:
  assumes "num_ge (if list_ex (\<lambda>x. x = None) (map parseInt (match_all True yearsPattern text))
                   then None
                   else Some (foldl max 0 (map the (map parseInt (match_all True yearsPattern text))))) 5"
    and "match_all True yearsPattern text \<noteq> []"
    and "int (length (match_all True yearsPattern text)) \<le> maxArguments R"
  shows "classifyExperienceLevel R e text = Inr (js ''Senior Level'')"
  using assms
  by (simp add: classifyExperienceLevel_def Math_max_list_def experienceTier_def Let_def)

section \<open>Roadmap, roles and list lengths\<close>

lemma templates_have_three_steps: "\<forall>e \<in> set industryRoadmaps. length (snd e) = 3"
  by (simp add: industryRoadmaps_def)

lemma general_template_exists: "map_of industryRoadmaps (js ''general'') \<noteq> None"
  unfolding map_of_eq_None_iff by (simp add: industryRoadmaps_def)

lemma template_length: "length (lookupOr industryRoadmaps industry (js ''general'')) = 3"
proof -
  have s: "length v = 3" if "map_of industryRoadmaps k = Some v" for k v
    using map_of_SomeD[OF that] templates_have_three_steps by fastforce
  show ?thesis
    using general_template_exists
    by (auto simp: lookupOr_def s split: option.splits)
qed

lemma extendRoadmap_eq:
  "extendRoadmap base sects =
     take 6 (base @ (if experience sects > 70 then [leadershipStep] else []) @
                    (if skills sects > 60 then [certificationStep] else []) @ [closingStep])"
  by (simp add: extendRoadmap_def Let_def)

lemma member_uniq_step: "List.member seen x = (x \<in> set seen)"
  by simp

lemma foldl_uniq_distinct:
  "distinct acc \<Longrightarrow> distinct (foldl (\<lambda>seen x. if List.member seen x then seen else seen @ [x]) acc xs)"
  by (induction xs arbitrary: acc) simp_all

lemma distinct_uniq: "distinct (uniq xs)"
  unfolding uniq_def by (rule foldl_uniq_distinct) simp

lemma uniq_snoc: "uniq (xs @ [x]) = (if x \<in> set (uniq xs) then uniq xs else uniq xs @ [x])"
  by (simp add: uniq_def)

lemma foldl_uniq_set:
  "set (foldl (\<lambda>seen x. if List.member seen x then seen else seen @ [x]) acc xs) = set acc \<union> set xs"
  by (induction xs arbitrary: acc) auto

lemma set_uniq: "set (uniq xs) = set xs"
  using foldl_uniq_set[of "[]" xs] unfolding uniq_def by simp

lemma generateRecommendations_length: "length (generateRecommendations R t s) \<le> 6"
  by (simp add: generateRecommendations_def Let_def)

lemma detectPrimarySkills_length: "length (detectPrimarySkills R t) \<le> 8"
  by (simp add: detectPrimarySkills_def Let_def)

lemma generateRoadmap_length: "length (generateRoadmap R t s) \<le> 6"
  by (simp add: generateRoadmap_def extendRoadmap_def Let_def)

lemma suggestRoles_length: "length (suggestRoles R a s p) \<le> 8"
  by (simp add: suggestRoles_def)

section \<open>Industry detection\<close>

lemma detect_stays:
  assumes "\<forall>e \<in> set xs. matchCount (snd e) tokens \<le> m"
  shows "foldl (detectStep tokens) (p, m) xs = (p, m)"
  using assms by (induction xs) (auto simp: detectStep_def Let_def)

lemma detect_below:
  assumes "m < c" and "\<forall>e \<in> set xs. matchCount (snd e) tokens < c"
  shows "snd (foldl (detectStep tokens) (p, m) xs) < c"
  using assms
proof (induction xs arbitrary: p m)
  case Nil
  then show ?case by simp
next
  case (Cons e xs)
  obtain industry kws where e: "e = (industry, kws)" by (cases e)
  show ?case
  proof (cases "matchCount kws tokens > m")
    case True
    then have "foldl (detectStep tokens) (p, m) (e # xs) =
               foldl (detectStep tokens) (industry, matchCount kws tokens) xs"
      by (simp add: e detectStep_def Let_def)
    moreover have "matchCount kws tokens < c" using Cons.prems(2) e by simp
    ultimately show ?thesis using Cons.IH[of "matchCount kws tokens" industry] Cons.prems(2)
      by simp
  next
    case False
    then have "foldl (detectStep tokens) (p, m) (e # xs) = foldl (detectStep tokens) (p, m) xs"
      by (simp add: e detectStep_def Let_def)
    then show ?thesis using Cons.IH[of m p] Cons.prems by simp
  qed
qed

lemma detect_general:
  assumes "\<forall>e \<in> set table. matchCount (snd e) tokens = 0"
  shows "detectIndustry table tokens = js ''general''"
proof -
  have "\<forall>e \<in> set table. matchCount (snd e) tokens \<le> 0" using assms by simp
  from detect_stays[OF this] show ?thesis by (simp add: detectIndustry_def)
qed

lemma detect_first_maximum:
  assumes i: "i < length table"
    and pos: "0 < matchCount (snd (table ! i)) tokens"
    and mx: "\<forall>j < length table.
               matchCount (snd (table ! j)) tokens \<le> matchCount (snd (table ! i)) tokens"
    and first: "\<forall>j < i. matchCount (snd (table ! j)) tokens < matchCount (snd (table ! i)) tokens"
  shows "detectIndustry table tokens = fst (table ! i)"
proof -
  let ?c = "matchCount (snd (table ! i)) tokens"
  have split: "table = take i table @ table ! i # drop (Suc i) table"
    using i by (simp add: id_take_nth_drop)
  obtain p m where pm: "foldl (detectStep tokens) (js ''general'', 0) (take i table) = (p, m)"
    by (cases "foldl (detectStep tokens) (js ''general'', 0) (take i table)")
  have "\<forall>e \<in> set (take i table). matchCount (snd e) tokens < ?c"
  proof
    fix e assume "e \<in> set (take i table)"
    then obtain j where "j < length (take i table)" "e = take i table ! j"
      by (auto simp: in_set_conv_nth)
    then show "matchCount (snd e) tokens < ?c" using first i by simp
  qed
  from detect_below[OF pos this, of "js ''general''"] have m: "m < ?c" by (simp add: pm)
  have st: "detectStep tokens (p, m) (table ! i) = (fst (table ! i), ?c)"
    using m by (cases "table ! i") (simp add: detectStep_def Let_def)
  have "\<forall>e \<in> set (drop (Suc i) table). matchCount (snd e) tokens \<le> ?c"
  proof
    fix e assume "e \<in> set (drop (Suc i) table)"
    then have "e \<in> set table" by (rule in_set_dropD)
    then obtain j where "j < length table" "e = table ! j" by (auto simp: in_set_conv_nth)
    then show "matchCount (snd e) tokens \<le> ?c" using mx by simp
  qed
  from detect_stays[OF this]
  have "foldl (detectStep tokens) (fst (table ! i), ?c) (drop (Suc i) table) = (fst (table ! i), ?c)" .
  then have "foldl (detectStep tokens) (js ''general'', 0)
               (take i table @ table ! i # drop (Suc i) table) = (fst (table ! i), ?c)"
    by (simp add: pm st)
  then have "foldl (detectStep tokens) (js ''general'', 0) table = (fst (table ! i), ?c)"
    using split by simp
  then show ?thesis by (simp add: detectIndustry_def)
qed

lemma matchedKeywords_iff:
  "keyword \<in> set (matchedKeywords kws tokens) \<longleftrightarrow>
     keyword \<in> set kws \<and>
     (\<exists>token \<in> set tokens. includes_str token (cleanKeyword keyword) \<or>
                            includes_str (cleanKeyword keyword) token)"
  by (auto simp: matchedKeywords_def keywordMatch_def list_ex_iff)

lemma roadmap_order: "map fst roadmapIndustryIndicators = industryOrder"
  by (simp add: roadmapIndustryIndicators_def industryOrder_def)

lemma role_order: "map fst roleIndustryIndicators = industryOrder"
  by (simp add: roleIndustryIndicators_def industryOrder_def)

lemma matchedKeywords_set_cong:
  "set tokens = set tokens' \<Longrightarrow> matchedKeywords kws tokens = matchedKeywords kws tokens'"
  by (simp add: matchedKeywords_def list_ex_iff)

lemma detectIndustry_set_cong:
  assumes "set tokens = set tokens'"
  shows "detectIndustry table tokens = detectIndustry table tokens'"
proof -
  have "detectStep tokens = detectStep tokens'"
    by (simp add: detectStep_def matchCount_def matchedKeywords_set_cong[OF assms])
  then show ?thesis by (simp add: detectIndustry_def)
qed

lemma detect_same_counts:
  assumes "map fst t1 = map fst t2"
    and "map (\<lambda>e. matchCount (snd e) tokens) t1 = map (\<lambda>e. matchCount (snd e) tokens) t2"
  shows "foldl (detectStep tokens) acc t1 = foldl (detectStep tokens) acc t2"
proof -
  have len: "length t1 = length t2" using assms(1) by (metis length_map)
  show ?thesis using len assms
  proof (induction t1 t2 arbitrary: acc rule: list_induct2)
    case Nil
    show ?case by simp
  next
    case (Cons x xs y ys)
    have "detectStep tokens acc x = detectStep tokens acc y"
      using Cons.prems by (cases x; cases y; cases acc) (simp add: detectStep_def Let_def)
    then show ?case using Cons by simp
  qed
qed

lemma detect_in_keys:
  assumes "\<exists>e \<in> set xs. m < matchCount (snd e) tokens"
  shows "fst (foldl (detectStep tokens) (p, m) xs) \<in> fst ` set xs"
  using assms
proof (induction xs arbitrary: p m)
  case Nil
  then show ?case by simp
next
  case (Cons e xs)
  obtain industry kws where e: "e = (industry, kws)" by (cases e)
  show ?case
  proof (cases "matchCount kws tokens > m")
    case True
    let ?c = "matchCount kws tokens"
    have f: "foldl (detectStep tokens) (p, m) (e # xs) = foldl (detectStep tokens) (industry, ?c) xs"
      using True by (simp add: e detectStep_def Let_def)
    show ?thesis
    proof (cases "\<exists>e' \<in> set xs. ?c < matchCount (snd e') tokens")
      case True
      from Cons.IH[OF this, of industry] show ?thesis unfolding f by auto
    next
      case False
      then have "\<forall>e' \<in> set xs. matchCount (snd e') tokens \<le> ?c" by auto
      from detect_stays[OF this, of industry] show ?thesis unfolding f by (simp add: e)
    qed
  next
    case False
    then have f: "foldl (detectStep tokens) (p, m) (e # xs) = foldl (detectStep tokens) (p, m) xs"
      by (simp add: e detectStep_def Let_def)
    have "\<exists>e' \<in> set xs. m < matchCount (snd e') tokens" using Cons.prems False e by auto
    from Cons.IH[OF this, of p] show ?thesis unfolding f by auto
  qed
qed

lemma matchCount_mono:
  assumes "set kws \<subseteq> set kws'" and "0 < matchCount kws tokens"
  shows "0 < matchCount kws' tokens"
proof -
  from assms(2) have "matchedKeywords kws tokens \<noteq> []" by (simp add: matchCount_def)
  then obtain k where "k \<in> set (matchedKeywords kws tokens)" by (cases "matchedKeywords kws tokens") auto
  then have "k \<in> set (matchedKeywords kws' tokens)" using assms(1) by (auto simp: matchedKeywords_def)
  then show ?thesis by (auto simp: matchCount_def)
qed

lemma tables_aligned:
  "list_all2 (\<lambda>a b. fst a = fst b \<and> set (snd a) \<subseteq> set (snd b))
     roadmapIndustryIndicators roleIndustryIndicators"
  by (simp add: roadmapIndustryIndicators_def roleIndustryIndicators_def)

lemma general_not_a_role_key: "js ''general'' \<notin> fst ` set roleIndustryIndicators"
  by (simp add: roleIndustryIndicators_def js_def)

lemma role_industry_follows:
  assumes "detectIndustry roadmapIndustryIndicators tokens \<noteq> js ''general''"
  shows "detectIndustry roleIndustryIndicators tokens \<noteq> js ''general''"
proof -
  have "\<not> (\<forall>e \<in> set roadmapIndustryIndicators. matchCount (snd e) tokens = 0)"
    using assms detect_general by blast
  then obtain e where e: "e \<in> set roadmapIndustryIndicators" "matchCount (snd e) tokens \<noteq> 0" by blast
  have "0 \<le> matchCount (snd e) tokens" by (simp add: matchCount_def)
  with e have pos: "0 < matchCount (snd e) tokens" by simp
  obtain i where i: "i < length roadmapIndustryIndicators" "e = roadmapIndustryIndicators ! i"
    using e(1) by (auto simp: in_set_conv_nth)
  have len: "length roadmapIndustryIndicators = length roleIndustryIndicators"
    using tables_aligned by (rule list_all2_lengthD)
  have "set (snd (roadmapIndustryIndicators ! i)) \<subseteq> set (snd (roleIndustryIndicators ! i))"
    using list_all2_nthD[OF tables_aligned i(1)] by simp
  from matchCount_mono[OF this] pos i have "0 < matchCount (snd (roleIndustryIndicators ! i)) tokens" by simp
  moreover have "roleIndustryIndicators ! i \<in> set roleIndustryIndicators" using i(1) len by simp
  ultimately have "\<exists>e \<in> set roleIndustryIndicators. 0 < matchCount (snd e) tokens" by blast
  from detect_in_keys[OF this, of "js ''general''"]
  have "detectIndustry roleIndustryIndicators tokens \<in> fst ` set roleIndustryIndicators"
    by (simp add: detectIndustry_def)
  then show ?thesis using general_not_a_role_key by metis
qed

lemma taxResume_tokens: "set (preprocessText sampleRuntime taxResume) = {js ''tax''}"
  by code_simp

lemma tax_roadmap: "detectIndustry roadmapIndustryIndicators [js ''tax''] = js ''general''"
  by code_simp

lemma tax_roles: "detectIndustry roleIndustryIndicators [js ''tax''] = js ''finance''"
  by code_simp

section \<open>The quantification check of the recommendations\<close>

lemma drop_Cons_nth: "drop i s = c # r \<Longrightarrow> i < length s \<and> c = s ! i"
  by (metis Cons_nth_drop_Suc drop_all list.distinct(1) list.inject not_le_imp_less)

lemma ends_Class_nonempty:
  "ends ci s (Class cl) i \<noteq> [] \<longleftrightarrow> i < length s \<and> cls_match ci cl (s ! i)"
proof (cases "drop i s")
  case Nil
  then show ?thesis by simp
next
  case (Cons c r)
  from drop_Cons_nth[OF this] show ?thesis using Cons by simp
qed

lemma quantification_class:
  "cls_match True [(0x30, 0x39), (0x2B, 0x2B), (0x25, 0x25), (0x24, 0x24)] c \<longleftrightarrow>
     in_cls digit c \<or> c = 0x2B \<or> c = 0x25 \<or> c = 0x24"
  by (auto simp: cls_match_def in_cls_def digit_def canonicalize_def asciiLower_def)

lemma in_upt_Suc: "i \<in> set [0 ..< Suc n] \<longleftrightarrow> i \<le> n"
  by auto

lemma ends_Lit_nonempty: "ends ci s (Lit p) i \<noteq> [] \<longleftrightarrow> lit_match ci (drop i s) p"
  by simp

lemma ends_quantification:
  "ends True text quantificationRegex i \<noteq> [] \<longleftrightarrow>
     (i < length text \<and> (in_cls digit (text ! i) \<or> text ! i = 0x2B \<or> text ! i = 0x25 \<or> text ! i = 0x24)) \<or>
     (\<exists>verb \<in> set quantificationVerbs. lit_match True (drop i text) verb)"
proof -
  have "ends True text quantificationRegex i =
      ends True text (Class [(0x30, 0x39), (0x2B, 0x2B), (0x25, 0x25), (0x24, 0x24)]) i @
      ends True text (Lit (js ''increase'')) i @ ends True text (Lit (js ''decrease'')) i @
      ends True text (Lit (js ''improve'')) i @ ends True text (Lit (js ''reduce'')) i @
      ends True text (Lit (js ''save'')) i @ ends True text (Lit (js ''generate'')) i"
    by (simp only: quantificationRegex_def ends.simps(5))
  then have "ends True text quantificationRegex i \<noteq> [] \<longleftrightarrow>
      ends True text (Class [(0x30, 0x39), (0x2B, 0x2B), (0x25, 0x25), (0x24, 0x24)]) i \<noteq> [] \<or>
      lit_match True (drop i text) (js ''increase'') \<or> lit_match True (drop i text) (js ''decrease'') \<or>
      lit_match True (drop i text) (js ''improve'') \<or> lit_match True (drop i text) (js ''reduce'') \<or>
      lit_match True (drop i text) (js ''save'') \<or> lit_match True (drop i text) (js ''generate'')"
    by (simp only: append_is_Nil_conv de_Morgan_conj ends_Lit_nonempty)
  also have "\<dots> \<longleftrightarrow>
     (i < length text \<and> (in_cls digit (text ! i) \<or> text ! i = 0x2B \<or> text ! i = 0x25 \<or> text ! i = 0x24)) \<or>
     (\<exists>verb \<in> set quantificationVerbs. lit_match True (drop i text) verb)"
    unfolding ends_Class_nonempty quantification_class 
    by (simp only: quantificationVerbs_def list.map list.set bex_simps insert_iff Bex_def) blast
  finally show ?thesis .
qed

lemma hasQuantification_iff:
  "regex_test True quantificationRegex text \<longleftrightarrow> documentedSignal text \<or> 0x2B \<in> set text"
proof
  assume "regex_test True quantificationRegex text"
  then obtain i where "i \<in> set [0 ..< Suc (length text)]"
    and i2: "ends True text quantificationRegex i \<noteq> []"
    unfolding regex_test_def list_ex_iff by blast
  then have i1: "i \<le> length text" unfolding in_upt_Suc by blast
  from iffD1[OF ends_quantification i2] consider
      (c) "i < length text"
          "in_cls digit (text ! i) \<or> text ! i = 0x2B \<or> text ! i = 0x25 \<or> text ! i = 0x24"
    | (v) verb where "verb \<in> set quantificationVerbs" "lit_match True (drop i text) verb"
    by blast
  then show "documentedSignal text \<or> 0x2B \<in> set text"
  proof cases
    case c
    from c(1) have m: "text ! i \<in> set text" by simp
    show ?thesis
    proof (cases "text ! i = 0x2B")
      case True
      with m show ?thesis by simp
    next
      case False
      with c(2) have "in_cls digit (text ! i) \<or> text ! i = 0x25 \<or> text ! i = 0x24" by blast
      with m have "list_ex (\<lambda>c. in_cls digit c \<or> c = 0x25 \<or> c = 0x24) text"
        unfolding list_ex_iff by blast
      then show ?thesis by (simp add: documentedSignal_def)
    qed
  next
    case v
    have "i \<in> set [0 ..< Suc (length text)]" using i1 unfolding in_upt_Suc .
    with v(2) have "occursIgnoringCase verb text"
      unfolding occursIgnoringCase_def list_ex_iff by blast
    with v(1) have "list_ex (\<lambda>verb. occursIgnoringCase verb text) quantificationVerbs"
      unfolding list_ex_iff by blast
    then show ?thesis by (simp add: documentedSignal_def)
  qed
next
  assume a: "documentedSignal text \<or> 0x2B \<in> set text"
  have fromChar: "regex_test True quantificationRegex text"
    if c: "c \<in> set text" "in_cls digit c \<or> c = 0x2B \<or> c = 0x25 \<or> c = 0x24" for c
  proof -
    from c(1) obtain i where i: "i < length text" "text ! i = c" by (auto simp: in_set_conv_nth)
    have "ends True text quantificationRegex i \<noteq> []"
      by (rule iffD2[OF ends_quantification]) (use i c(2) in blast)
    moreover have "i \<in> set [0 ..< Suc (length text)]" using i(1) by simp
    ultimately show ?thesis unfolding regex_test_def list_ex_iff by blast
  qed
  have fromVerb: "regex_test True quantificationRegex text"
    if v: "verb \<in> set quantificationVerbs" "occursIgnoringCase verb text" for verb
  proof -
    from v(2) obtain i where i: "i \<in> set [0 ..< Suc (length text)]" "lit_match True (drop i text) verb"
      unfolding occursIgnoringCase_def list_ex_iff by blast
    have "ends True text quantificationRegex i \<noteq> []"
      by (rule iffD2[OF ends_quantification]) (use i(2) v(1) in blast)
    with i(1) show ?thesis unfolding regex_test_def list_ex_iff by blast
  qed
  from a show "regex_test True quantificationRegex text"
  proof
    assume "documentedSignal text"
    then have "(\<exists>c \<in> set text. in_cls digit c \<or> c = 0x25 \<or> c = 0x24) \<or>
               (\<exists>verb \<in> set quantificationVerbs. occursIgnoringCase verb text)"
      unfolding documentedSignal_def list_ex_iff .
    then consider
        (c) c where "c \<in> set text" "in_cls digit c \<or> c = 0x25 \<or> c = 0x24"
      | (v) verb where "verb \<in> set quantificationVerbs" "occursIgnoringCase verb text"
      by blast
    then show ?thesis
    proof cases
      case c
      then show ?thesis using fromChar[of c] by blast
    next
      case v
      then show ?thesis by (rule fromVerb)
    qed
  next
    assume "0x2B \<in> set text"
    then show ?thesis using fromChar[of "0x2B"] by blast
  qed
qed

lemma recommendation_absent_with_signal:
  assumes "regex_test True quantificationRegex text"
    and "r \<in> set (generateRecommendations R text sects)"
  shows "problem r \<noteq> js ''Resume lacks quantified achievements''"
proof -
  have d: "js ''Missing industry-standard keywords'' \<noteq> js ''Resume lacks quantified achievements''"
    "js ''Experience section needs improvement'' \<noteq> js ''Resume lacks quantified achievements''"
    "js ''Skills section is underdeveloped'' \<noteq> js ''Resume lacks quantified achievements''"
    "js ''Limited quantified achievements'' \<noteq> js ''Resume lacks quantified achievements''"
    "js ''Formatting and structure need improvement'' \<noteq> js ''Resume lacks quantified achievements''"
    by (simp_all add: js_def)
  from assms(2) show ?thesis
    unfolding generateRecommendations_def Let_def
    using assms(1) d
    by (auto dest!: in_set_takeD split: if_splits)
qed

lemma recommendation_first_without_signal:
  assumes "\<not> regex_test True quantificationRegex text"
  shows "\<exists>r rest. generateRecommendations R text sects = r # rest \<and>
           problem r = js ''Resume lacks quantified achievements'' \<and> priority r = js ''High''"
  using assms unfolding generateRecommendations_def Let_def by simp

lemma cppResume_facts: "validInput cppResume" "\<not> documentedSignal cppResume" "0x2B \<in> set cppResume"
  by code_simp+

lemma cppResume_short: "int (length cppResume) < maxArguments sampleRuntime"
  by code_simp

text \<open>
  Without a plus sign the quantification check is the documented one, and the
  recommendation about quantified achievements is the first of a returned report, with
  high priority.
\<close>

lemma quantified_recommendation_first_without_plus:
  assumes "fst (analyzeResume R this resumeText) = Inr result"
    and "\<not> documentedSignal resumeText" and "0x2B \<notin> set resumeText"
  shows "\<exists>r rest. detailedRecommendations result = r # rest \<and>
           problem r = js ''Resume lacks quantified achievements'' \<and> priority r = js ''High''"
proof -
  have r: "detailedRecommendations result =
       generateRecommendations R resumeText (scoreSections R resumeText)"
    using analyzeResume_report[OF assms(1)] by blast
  have "\<not> regex_test True quantificationRegex resumeText"
    using assms(2,3) by (simp add: hasQuantification_iff)
  from recommendation_first_without_signal[OF this, of R "scoreSections R resumeText"] r
  show ?thesis by auto
qed

section \<open>Preprocessing\<close>

lemma scan_step:
  "scan ci r s i =
     (if length s < i then []
      else (case ends ci s r i of
              [] \<Rightarrow> scan ci r s (Suc i)
            | j # _ \<Rightarrow> (i, j) # scan ci r s (if j \<le> i then Suc i else j)))"
  by (rule scan.simps)

lemma scan_beyond: "length s \<le> i \<Longrightarrow> scan False (NotClass A) s i = []"
proof -
  assume a: "length s \<le> i"
  have e: "ends False s (NotClass A) i = []" using a by simp
  show ?thesis
  proof (cases "length s < i")
    case True
    then show ?thesis by (subst scan_step) simp
  next
    case False
    then have "length s < Suc i" using a by simp
    then have "scan False (NotClass A) s (Suc i) = []" by (subst scan_step) simp
    then show ?thesis using e False by (subst scan_step) simp
  qed
qed

lemma scan_NotClass_at:
  assumes "i < length s"
  shows "scan False (NotClass A) s i =
           (if in_cls A (s ! i) then scan False (NotClass A) s (Suc i)
            else (i, Suc i) # scan False (NotClass A) s (Suc i))"
proof -
  have d: "drop i s = s ! i # drop (Suc i) s" using assms by (simp add: Cons_nth_drop_Suc)
  have e: "ends False s (NotClass A) i = (if in_cls A (s ! i) then [] else [Suc i])"
    by (simp add: d cls_match_def)
  show ?thesis using assms e by (subst scan_step) simp
qed

lemma splice_scan_NotClass:
  assumes "pos \<le> i"
  shows "splice s [x] pos (scan False (NotClass A) s i) =
           take (i - pos) (drop pos s) @ map (\<lambda>c. if in_cls A c then c else x) (drop i s)"
  using assms
proof (induction "length s - i" arbitrary: i pos)
  case 0
  then have "length s \<le> i" by simp
  then show ?case using 0 by (simp add: scan_beyond)
next
  case (Suc n)
  then have l: "i < length s" by simp
  have d: "drop i s = s ! i # drop (Suc i) s" using l by (simp add: Cons_nth_drop_Suc)
  have n: "n = length s - Suc i" using Suc(2) by simp
  have t: "take (Suc i - pos) (drop pos s) = take (i - pos) (drop pos s) @ [s ! i]"
  proof -
    have "Suc i - pos = Suc (i - pos)" using Suc.prems by simp
    moreover have "i - pos < length (drop pos s)" using l Suc.prems by simp
    moreover have "drop pos s ! (i - pos) = s ! i" using l Suc.prems by simp
    ultimately show ?thesis by (simp add: take_Suc_conv_app_nth)
  qed
  show ?case
  proof (cases "in_cls A (s ! i)")
    case True
    have "splice s [x] pos (scan False (NotClass A) s i) =
          splice s [x] pos (scan False (NotClass A) s (Suc i))"
      using True by (simp add: scan_NotClass_at[OF l])
    also have "\<dots> = take (Suc i - pos) (drop pos s) @
                      map (\<lambda>c. if in_cls A c then c else x) (drop (Suc i) s)"
      using Suc(1)[OF n, of pos] Suc.prems by simp
    finally show ?thesis using True by (simp add: t d)
  next
    case False
    have "splice s [x] pos (scan False (NotClass A) s i) =
          take (i - pos) (drop pos s) @ [x] @ splice s [x] (Suc i) (scan False (NotClass A) s (Suc i))"
      using False by (simp add: scan_NotClass_at[OF l])
    also have "splice s [x] (Suc i) (scan False (NotClass A) s (Suc i)) =
               map (\<lambda>c. if in_cls A c then c else x) (drop (Suc i) s)"
      using Suc(1)[OF n, of "Suc i"] by simp
    finally show ?thesis using False by (simp add: d)
  qed
qed

lemma replace_all_NotClass:
  "replace_all False (NotClass A) [x] s = map (\<lambda>c. if in_cls A c then c else x) s"
  using splice_scan_NotClass[of 0 0 s x A] by (simp add: replace_all_def)

lemma preprocessText_eq:
  "preprocessText R text =
     map (stem R) (removeStopwords R (tokenize R
       (map (\<lambda>c. if in_cls allowed c then c else 0x20) (toLowerCase text))))"
  by (simp add: preprocessText_def Let_def replace_all_NotClass js_def)

lemma in_cls_append: "in_cls (xs @ ys) c \<longleftrightarrow> in_cls xs c \<or> in_cls ys c"
  by (simp add: in_cls_def)

lemma in_cls_point: "in_cls ((a, a) # rs) c \<longleftrightarrow> c = a \<or> in_cls rs c"
  by (auto simp: in_cls_def)

lemma in_cls_Nil: "in_cls [] c \<longleftrightarrow> False"
  by (simp add: in_cls_def)

lemma allowed_iff:
  "in_cls allowed c \<longleftrightarrow>
     (0x61 \<le> c \<and> c \<le> 0x7A) \<or> (0x41 \<le> c \<and> c \<le> 0x5A) \<or> (0x30 \<le> c \<and> c \<le> 0x39) \<or>
     in_cls whiteSpace c \<or>
     c \<in> {0x2D, 0x2F, 0x2B, 0x23, 0x2E, 0x40, 0x5F, 0x28, 0x29}"
proof -
  have s: "in_cls [(0x2D, 0x2D), (0x2F, 0x2F), (0x2B, 0x2B), (0x23, 0x23), (0x2E, 0x2E), (0x40, 0x40),
      (0x5F, 0x5F), (0x28, 0x28), (0x29, 0x29)] c \<longleftrightarrow>
      c \<in> {0x2D, 0x2F, 0x2B, 0x23, 0x2E, 0x40, 0x5F, 0x28, 0x29}"
    by (simp only: in_cls_point in_cls_Nil insert_iff empty_iff)
  have l: "in_cls [(0x61, 0x7A), (0x41, 0x5A), (0x30, 0x39)] c \<longleftrightarrow>
      (0x61 \<le> c \<and> c \<le> 0x7A) \<or> (0x41 \<le> c \<and> c \<le> 0x5A) \<or> (0x30 \<le> c \<and> c \<le> 0x39)"
    unfolding in_cls_def by simp
  show ?thesis unfolding allowed_def in_cls_append s l by blast
qed

lemma wordPieces_chars:
  assumes "\<forall>c \<in> set cur. in_cls tokenChar c"
  shows "\<forall>token \<in> set (wordPieces cur s). \<forall>c \<in> set token. in_cls tokenChar c"
  using assms
proof (induction s arbitrary: cur)
  case Nil
  then show ?case by simp
next
  case (Cons a s)
  show ?case
  proof (cases "in_cls tokenChar a")
    case True
    then have "\<forall>c \<in> set (cur @ [a]). in_cls tokenChar c" using Cons.prems by simp
    from Cons.IH[OF this] show ?thesis using True by simp
  next
    case False
    have "\<forall>c \<in> set ([]::jstring). in_cls tokenChar c" by simp
    from Cons.IH[OF this] show ?thesis using False Cons.prems by auto
  qed
qed

lemma wordTokenizer_chars:
  "token \<in> set (wordTokenizer s) \<Longrightarrow> c \<in> set token \<Longrightarrow> in_cls tokenChar c"
  using wordPieces_chars[of "[]" s] by (auto simp: wordTokenizer_def)

lemma not_token_chars: "\<not> in_cls tokenChar 0x2B" "\<not> in_cls tokenChar 0x23" "\<not> in_cls tokenChar 0x2E"
  by (simp_all add: in_cls_def tokenChar_def)

lemma wordTokenizer_drops_symbols:
  assumes "token \<in> set (wordTokenizer s)"
  shows "0x2B \<notin> set token \<and> 0x23 \<notin> set token \<and> 0x2E \<notin> set token"
  using wordTokenizer_chars[OF assms] not_token_chars by blast

section \<open>The year mentions of a text\<close>

text \<open>
  A match of \<open>yearsPattern\<close> starts with a digit, and a scan starts at most one match at
  each position, so a text has no more year mentions than characters that are left
  after trimming.
\<close>

lemma ends_Seq_nonempty: "ends ci s (Seq a b) i \<noteq> [] \<Longrightarrow> ends ci s a i \<noteq> []"
  by auto

lemma ends_Seq_WordB: "ends ci s (Seq WordB b) i \<noteq> [] \<Longrightarrow> ends ci s b i \<noteq> []"
  by (auto split: if_splits)

lemma ends_Many1_nonempty:
  assumes "ends ci s (Many1 cl) i \<noteq> []"
  shows "i < length s \<and> cls_match ci cl (s ! i)"
proof (cases "drop i s")
  case Nil
  with assms show ?thesis by simp
next
  case (Cons c r)
  from drop_Cons_nth[OF this] assms Cons show ?thesis by (auto split: if_splits)
qed

lemma digit_range: "cls_match ci digit c \<Longrightarrow> 0x30 \<le> c \<and> c \<le> 0x39"
  by (auto simp: cls_match_def in_cls_def digit_def canonicalize_def asciiLower_def
      split: if_splits)

lemma digit_not_whiteSpace: "cls_match ci digit c \<Longrightarrow> \<not> in_cls whiteSpace c"
  using digit_range[of ci c] by (simp add: in_cls_def whiteSpace_def)

lemma years_start:
  assumes "ends ci s yearsPattern i \<noteq> []"
  shows "i < length s \<and> \<not> in_cls whiteSpace (s ! i)"
proof -
  have "ends ci s (Many1 digit) i \<noteq> []"
    using assms unfolding yearsPattern_def
    by (rule ends_Seq_nonempty[OF ends_Seq_WordB])
  from ends_Many1_nonempty[OF this] digit_not_whiteSpace show ?thesis by blast
qed

lemma filter_drop_length: "length (filter P (drop n xs)) \<le> length (filter P xs)"
proof -
  have "filter P xs = filter P (take n xs) @ filter P (drop n xs)"
    by (metis append_take_drop_id filter_append)
  then show ?thesis by simp
qed

lemma filter_drop_mono:
  assumes "i \<le> k"
  shows "length (filter P (drop k s)) \<le> length (filter P (drop i s))"
proof -
  have "drop k s = drop (k - i) (drop i s)" using assms by simp
  then show ?thesis using filter_drop_length[of P "k - i" "drop i s"] by simp
qed

lemma scan_count:
  assumes "\<And>i. ends ci s r i \<noteq> [] \<Longrightarrow> i < length s \<and> P (s ! i)"
  shows "length (scan ci r s i) \<le> length (filter P (drop i s))"
  using assms
proof (induction ci r s i rule: scan.induct)
  case (1 ci r s i)
  show ?case
  proof (cases "length s < i")
    case True
    then show ?thesis by (subst scan.simps) simp
  next
    case False
    show ?thesis
    proof (cases "ends ci s r i")
      case Nil
      have "length (scan ci r s (Suc i)) \<le> length (filter P (drop (Suc i) s))"
        by (rule 1(1)[OF False Nil 1(3)])
      also have "\<dots> \<le> length (filter P (drop i s))" by (rule filter_drop_mono) simp
      finally show ?thesis using False Nil by (subst scan.simps) simp
    next
      case (Cons j js)
      let ?k = "if j \<le> i then Suc i else j"
      have p: "i < length s \<and> P (s ! i)" using 1(3)[of i] Cons by simp
      then have d: "drop i s = s ! i # drop (Suc i) s" by (simp add: Cons_nth_drop_Suc)
      have "length (scan ci r s ?k) \<le> length (filter P (drop ?k s))"
        by (rule 1(2)[OF False Cons 1(3)])
      also have "\<dots> \<le> length (filter P (drop (Suc i) s))" by (rule filter_drop_mono) simp
      finally have "Suc (length (scan ci r s ?k)) \<le> length (filter P (drop i s))"
        using p unfolding d by simp
      then show ?thesis using False Cons by (subst scan.simps) simp
    qed
  qed
qed

lemma filter_dropWhile: "filter (\<lambda>c. \<not> P c) (dropWhile P xs) = filter (\<lambda>c. \<not> P c) xs"
  by (induction xs) auto

lemma filter_trim:
  "filter (\<lambda>c. \<not> in_cls whiteSpace c) (trim s) = filter (\<lambda>c. \<not> in_cls whiteSpace c) s"
  unfolding trim_def by (simp add: rev_filter[symmetric] filter_dropWhile)

lemma years_count: "length (match_all True yearsPattern s) \<le> length (trim s)"
proof -
  have "length (match_all True yearsPattern s) = length (scan True yearsPattern s 0)"
    by (simp add: match_all_def)
  also have "\<dots> \<le> length (filter (\<lambda>c. \<not> in_cls whiteSpace c) (drop 0 s))"
    by (rule scan_count) (rule years_start)
  also have "\<dots> = length (filter (\<lambda>c. \<not> in_cls whiteSpace c) (trim s))"
    by (simp add: filter_trim)
  also have "\<dots> \<le> length (trim s)" by (rule length_filter_le)
  finally show ?thesis .
qed

lemma few_matches_trimmed:
  assumes "int (length (trim text)) \<le> maxArguments R"
  shows "int (length (match_all True yearsPattern text)) \<le> maxArguments R"
  using years_count[of "text"] assms by simp

text \<open>The sample texts are analysed to the end.\<close>

lemma nurseResume_returns:
  "\<exists>result. fst (analyzeResume sampleRuntime newAnalyzer nurseResume) = Inr result"
proof -
  have "int (length nurseResume) < maxArguments sampleRuntime"
    by (simp add: nurseResume_def js_def sampleRuntime_def)
  from analyzeResume_returns[OF nurseResume_valid few_matches[OF this]] show ?thesis .
qed

text \<open>
  With more year mentions than the engine takes as arguments, the analysis of a valid
  text fails with the rethrown \<open>RangeError\<close>.
\<close>

lemma overflow_example:
  "fst (analyzeResume smallStackRuntime newAnalyzer yearsResume) =
     Inl (Error (js ''Failed to analyze resume: '' @ js ''Maximum call stack size exceeded''))"
  by (rule analyzeResume_overflow; code_simp)

lemma classifyExperienceLevel_error:
  assumes "classifyExperienceLevel R experienceScore text = Inl e"
  shows "e = RangeError (js ''Maximum call stack size exceeded'')"
  using assms
  by (auto simp: classifyExperienceLevel_def Math_max_list_def Let_def split: if_splits)

text \<open>The industry of the roadmap is a key of the table of templates.\<close>

lemma detect_key: "fst (foldl (detectStep tokens) (p, m) xs) \<in> insert p (fst ` set xs)"
proof (induction xs arbitrary: p m)
  case Nil
  then show ?case by simp
next
  case (Cons e xs)
  obtain industry kws where e: "e = (industry, kws)" by (cases e)
  show ?case
  proof (cases "matchCount kws tokens > m")
    case True
    then have "foldl (detectStep tokens) (p, m) (e # xs) =
               foldl (detectStep tokens) (industry, matchCount kws tokens) xs"
      by (simp add: e detectStep_def Let_def)
    then show ?thesis using Cons.IH[of industry "matchCount kws tokens"] e by auto
  next
    case False
    then have "foldl (detectStep tokens) (p, m) (e # xs) = foldl (detectStep tokens) (p, m) xs"
      by (simp add: e detectStep_def Let_def)
    then show ?thesis using Cons.IH[of p m] by auto
  qed
qed

lemma roadmap_keys: "insert (js ''general'') (set industryOrder) \<subseteq> fst ` set industryRoadmaps"
  by (simp add: industryOrder_def industryRoadmaps_def)

lemma roadmapIndustry_key: "roadmapIndustry R resumeText \<in> fst ` set industryRoadmaps"
proof -
  have "roadmapIndustry R resumeText
          \<in> insert (js ''general'') (fst ` set roadmapIndustryIndicators)"
    unfolding roadmapIndustry_def detectIndustry_def Let_def by (rule detect_key)
  also have "fst ` set roadmapIndustryIndicators = set industryOrder"
    using roadmap_order by (metis set_map)
  finally show ?thesis using roadmap_keys by blast
qed

lemma roadmap_template:
  "\<exists>template. map_of industryRoadmaps (roadmapIndustry R resumeText) = Some template \<and>
     length template = 3 \<and>
     lookupOr industryRoadmaps (roadmapIndustry R resumeText) (js ''general'') = template"
proof -
  have "map_of industryRoadmaps (roadmapIndustry R resumeText) \<noteq> None"
    unfolding map_of_eq_None_iff using roadmapIndustry_key by simp
  then obtain template where
    t: "map_of industryRoadmaps (roadmapIndustry R resumeText) = Some template" by blast
  have "length template = 3"
    using map_of_SomeD[OF t] templates_have_three_steps by fastforce
  with t show ?thesis by (simp add: lookupOr_def)
qed

section \<open>The salary of a report\<close>

text \<open>
  For an overall score between 0 and 100 and a tier name that \<open>Object.prototype\<close> does not
  define, \<open>estimateSalary\<close> scales the band of the tier by \<open>min(1, score/100 + 0.2)\<close>: the
  two numbers it formats are exactly the band bounds times that multiplier, and the
  upper one never exceeds the band maximum.
\<close>

lemma salary_scaled_band:
  assumes "0 \<le> score" and "score \<le> 100"
    and "\<not> List.member objectPrototypeNames tier"
  shows "\<exists>lo hi. salaryBounds score tier = Some (lo, hi) \<and>
            of_int lo = of_int (range_min (documentedBand tier)) * multiplier score \<and>
            of_int hi = of_int (range_max (documentedBand tier)) * multiplier score \<and>
            hi \<le> range_max (documentedBand tier) \<and>
            salaryRange (estimateSalary R score tier) =
              js ''$'' @ toLocaleString R (Some lo) @ js '' - $'' @ toLocaleString R (Some hi)"
proof -
  let ?b = "documentedBand tier"
  let ?lo = "range_min ?b div 100 * min 100 (score + 20)"
  let ?hi = "range_max ?b div 100 * min 100 (score + 20)"
  have d: "range_min ?b = 100 * (range_min ?b div 100)" "range_max ?b = 100 * (range_max ?b div 100)"
    "0 \<le> range_max ?b div 100"
    using documentedBand_cases[of tier] by auto
  have b: "salaryBounds score tier = Some (?lo, ?hi)" by (rule salaryBounds_exact[OF assms])
  have lo: "(of_int ?lo :: rat) = of_int (range_min ?b) * multiplier score"
    by (rule scaled_exact[OF d(1)])
  have hi: "(of_int ?hi :: rat) = of_int (range_max ?b) * multiplier score"
    by (rule scaled_exact[OF d(2)])
  have "?hi \<le> range_max ?b div 100 * 100" using d(3) by (intro mult_left_mono) auto
  then have le: "?hi \<le> range_max ?b" using d(2) by simp
  have str: "salaryRange (estimateSalary R score tier) =
      js ''$'' @ toLocaleString R (Some ?lo) @ js '' - $'' @ toLocaleString R (Some ?hi)"
    by (simp add: estimateSalary_def b)
  show ?thesis using b lo hi le str by blast
qed

text \<open>
  The salary range of a returned report whose tier is Senior is 125,000 and 185,000
  times the multiplier of its overall score.
\<close>

lemma senior_report_salary:
  assumes "fst (analyzeResume R this resumeText) = Inr result"
    and "experienceLevel result = js ''Senior Level''"
  shows "\<exists>lo hi. salaryBounds (overall (scores result)) (experienceLevel result) = Some (lo, hi) \<and>
           of_int lo = 125000 * multiplier (overall (scores result)) \<and>
           of_int hi = 185000 * multiplier (overall (scores result)) \<and>
           hi \<le> 185000 \<and>
           salaryRange (salaryExpectation result) =
             js ''$'' @ toLocaleString R (Some lo) @ js '' - $'' @ toLocaleString R (Some hi)"
proof -
  have r: "overall (scores result) = overallScore (scoreSections R resumeText)"
    "salaryExpectation result = estimateSalary R (overallScore (scoreSections R resumeText))
       (experienceLevel result)"
    using analyzeResume_report[OF assms(1)] by blast+
  have o: "0 \<le> overall (scores result)" "overall (scores result) \<le> 100"
    using overallScore_range[OF scoreSections_inRange, of R resumeText] r(1) by simp_all
  have sen: "\<not> List.member objectPrototypeNames (js ''Senior Level'')"
    by (simp add: objectPrototypeNames_def js_def)
  have db: "documentedBand (js ''Senior Level'') = \<lparr> range_min = 125000, range_max = 185000 \<rparr>"
    by (simp add: documentedBand_def js_def)
  have se: "salaryExpectation result = estimateSalary R (overall (scores result)) (js ''Senior Level'')"
    using r assms(2) by simp
  show ?thesis
    using salary_scaled_band[OF o sen, of R] unfolding assms(2) se db by simp
qed

lemma seniorResume_is_senior:
  "\<exists>result. fst (analyzeResume sampleRuntime newAnalyzer seniorResume) = Inr result \<and>
     experienceLevel result = js ''Senior Level''"
proof -
  have v: "validInput seniorResume"
    by (simp add: validInput_def seniorResume_def js_def trim_def in_cls_def whiteSpace_def)
  have "int (length seniorResume) < maxArguments sampleRuntime"
    by (simp add: seniorResume_def js_def sampleRuntime_def)
  from analyzeResume_returns[OF v few_matches[OF this]]
  obtain result where r: "fst (analyzeResume sampleRuntime newAnalyzer seniorResume) = Inr result"
    by blast
  have c: "classifyExperienceLevel sampleRuntime e seniorResume = Inr (js ''Senior Level'')" for e
    by (rule classify_senior; code_simp)
  have "experienceLevel result = js ''Senior Level''"
    using analyzeResume_report[OF r] c by simp
  with r show ?thesis by blast
qed

section \<open>Claims\<close>

text \<open>
  C1. The overall score is the documented weighted sum \<open>skills * 0.25 + experience * 0.25 +
  education * 0.15 + projects * 0.15 + achievements * 0.10 + formatting * 0.10\<close> of the six
  section scores, rounded to the nearest integer: it lies within one half of the exact
  sum, and no integer is nearer. This holds of the score computed from any six section
  scores between 0 and 100, and of the overall score of every report that
  \<open>analyzeResume\<close> returns, with respect to the section scores of that report. (Where the
  exact sum lies half way between two integers the double arithmetic of the source may
  come out on either side, as \<open>overallScore_tie_rounds_down\<close> shows.)
\<close>

theorem overall_score_is_rounded_weighted_sum:
  "(inRange sects \<longrightarrow>
      \<bar>of_int (overallScore sects) - weightedSum sects\<bar> \<le> 1/2 \<and>
      (\<forall>n::int. \<bar>of_int (overallScore sects) - weightedSum sects\<bar>
                 \<le> \<bar>of_int n - weightedSum sects\<bar>)) \<and>
   (fst (analyzeResume R this resumeText) = Inr result \<longrightarrow>
      overall (scores result) = overallScore (scoreSections R resumeText) \<and>
      \<bar>of_int (overall (scores result)) - weightedSum (scores result)\<bar> \<le> 1/2 \<and>
      (\<forall>n::int. \<bar>of_int (overall (scores result)) - weightedSum (scores result)\<bar>
                 \<le> \<bar>of_int n - weightedSum (scores result)\<bar>))"
proof (intro conjI impI)
  assume i: "inRange sects"
  show n: "\<bar>of_int (overallScore sects) - weightedSum sects\<bar> \<le> 1/2"
    by (rule overallScore_nearest[OF i])
  show "\<forall>n::int. \<bar>of_int (overallScore sects) - weightedSum sects\<bar>
                 \<le> \<bar>of_int n - weightedSum sects\<bar>"
    using nearest_integer[OF n] by blast
next
  assume a: "fst (analyzeResume R this resumeText) = Inr result"
  have r: "skills (scores result) = skills (scoreSections R resumeText)"
    "experience (scores result) = experience (scoreSections R resumeText)"
    "education (scores result) = education (scoreSections R resumeText)"
    "projects (scores result) = projects (scoreSections R resumeText)"
    "formatting (scores result) = formatting (scoreSections R resumeText)"
    "achievements (scores result) = achievements (scoreSections R resumeText)"
    "overall (scores result) = overallScore (scoreSections R resumeText)"
    using analyzeResume_report[OF a] by blast+
  show "overall (scores result) = overallScore (scoreSections R resumeText)" by (rule r(7))
  have w: "weightedSum (scores result) = weightedSum (scoreSections R resumeText)"
    by (rule weightedSum_cong) (simp_all add: r)
  show n: "\<bar>of_int (overall (scores result)) - weightedSum (scores result)\<bar> \<le> 1/2"
    unfolding w r(7) by (rule overallScore_nearest[OF scoreSections_inRange])
  show "\<forall>n::int. \<bar>of_int (overall (scores result)) - weightedSum (scores result)\<bar>
                 \<le> \<bar>of_int n - weightedSum (scores result)\<bar>"
    using nearest_integer[OF n] by blast
qed

theorem overall_score_is_rounded_weighted_sum_witness:
  "inRange \<lparr> skills = 40, experience = 55, education = 30, projects = 20, formatting = 35,
            achievements = 10 \<rparr> \<and>
   \<bar>of_int (overallScore \<lparr> skills = 40, experience = 55, education = 30, projects = 20,
                          formatting = 35, achievements = 10 \<rparr>)
      - weightedSum \<lparr> skills = 40, experience = 55, education = 30, projects = 20,
                      formatting = 35, achievements = 10 \<rparr>\<bar> \<le> 1/2 \<and>
   (\<exists>result. fst (analyzeResume sampleRuntime newAnalyzer nurseResume) = Inr result \<and>
      \<bar>of_int (overall (scores result)) - weightedSum (scores result)\<bar> \<le> 1/2 \<and>
      (\<forall>n::int. \<bar>of_int (overall (scores result)) - weightedSum (scores result)\<bar>
                 \<le> \<bar>of_int n - weightedSum (scores result)\<bar>))"
proof -
  let ?s = "\<lparr> skills = 40, experience = 55, education = 30, projects = 20, formatting = 35,
             achievements = 10 \<rparr>"
  have i: "inRange ?s" by (simp add: inRange_def)
  obtain result where r: "fst (analyzeResume sampleRuntime newAnalyzer nurseResume) = Inr result"
    using nurseResume_returns by blast
  from i r overall_score_is_rounded_weighted_sum[of ?s sampleRuntime newAnalyzer nurseResume result]
  show ?thesis by blast
qed

text \<open>
  C2, amended. The validation error is thrown exactly when the input is empty or its
  trimmed length is below 100 characters. It is not surfaced verbatim: it is thrown
  inside the \<open>try\<close> block, so the \<open>catch\<close> clause rethrows it with the prefix that it puts
  before the message of any error thrown there, and the caller receives the error with
  the message \<open>Failed to analyze resume: Resume content is too short or empty\<close>, again
  exactly for these inputs. An input of exactly 100 trimmed characters succeeds (on an
  engine that accepts a spread call of 100 arguments: the text has no more year
  mentions than that).
\<close>

theorem validation_failure_is_rethrown_with_prefix:
  "(tryBlock R \<lparr> lastResumeText = Some resumeText \<rparr> resumeText =
      Inl (Error (js ''Resume content is too short or empty'')))
     = (resumeText = [] \<or> length (trim resumeText) < 100) \<and>
   (fst (analyzeResume R this resumeText) =
      Inl (Error (js ''Failed to analyze resume: Resume content is too short or empty'')))
     = (resumeText = [] \<or> length (trim resumeText) < 100) \<and>
   (tryBlock R \<lparr> lastResumeText = Some resumeText \<rparr> resumeText = Inl e \<longrightarrow>
      fst (analyzeResume R this resumeText) =
        Inl (Error (js ''Failed to analyze resume: '' @ message e))) \<and>
   (length (trim resumeText) = 100 \<and> 100 \<le> maxArguments R \<longrightarrow>
      (\<exists>result. fst (analyzeResume R this resumeText) = Inr result))"
proof -
  let ?short = "resumeText = [] \<or> length (trim resumeText) < 100"
  let ?body = "tryBlock R \<lparr> lastResumeText = Some resumeText \<rparr> resumeText"
  have m: "js ''Failed to analyze resume: '' @ js ''Resume content is too short or empty'' =
           js ''Failed to analyze resume: Resume content is too short or empty''"
    by (simp add: js_def)
  have thrown: "?body = Inl (Error (js ''Resume content is too short or empty''))" if "?short"
    using that by (auto simp: tryBlock_def)
  have other: "?body \<noteq> Inl (Error (js ''Resume content is too short or empty''))" if n: "\<not> ?short"
  proof (cases "classifyExperienceLevel R (experience (scoreSections R resumeText)) resumeText")
    case (Inl err)
    from classifyExperienceLevel_error[OF Inl] Inl n show ?thesis
      by (simp add: tryBlock_def Let_def)
  next
    case (Inr level)
    with n show ?thesis by (simp add: tryBlock_def Let_def)
  qed
  have c1: "(?body = Inl (Error (js ''Resume content is too short or empty''))) = ?short"
    using thrown other by blast
  have c2: "fst (analyzeResume R this resumeText) =
        Inl (Error (js ''Failed to analyze resume: Resume content is too short or empty''))"
    if "?short"
    using analyzeResume_invalid[of resumeText R this] that m by (simp add: validInput_def)
  have c2': "fst (analyzeResume R this resumeText) \<noteq>
        Inl (Error (js ''Failed to analyze resume: Resume content is too short or empty''))"
    if n: "\<not> ?short"
  proof (cases "classifyExperienceLevel R (experience (scoreSections R resumeText)) resumeText")
    case (Inl err)
    have "js ''Failed to analyze resume: '' @ js ''Maximum call stack size exceeded'' \<noteq>
          js ''Failed to analyze resume: Resume content is too short or empty''"
      by (simp add: js_def)
    with classifyExperienceLevel_error[OF Inl] Inl n show ?thesis
      by (simp add: analyzeResume_def tryBlock_def Let_def)
  next
    case (Inr level)
    with n show ?thesis by (simp add: analyzeResume_def tryBlock_def Let_def)
  qed
  have c3: "fst (analyzeResume R this resumeText) =
        Inl (Error (js ''Failed to analyze resume: '' @ message e))" if "?body = Inl e"
    using that by (simp add: analyzeResume_def analyzer_update)
  have c4: "\<exists>result. fst (analyzeResume R this resumeText) = Inr result"
    if h: "length (trim resumeText) = 100 \<and> 100 \<le> maxArguments R"
  proof -
    have "trim [] = []" by (simp add: trim_def)
    with h have v: "validInput resumeText" by (auto simp: validInput_def)
    from h have "int (length (trim resumeText)) \<le> maxArguments R" by simp
    from analyzeResume_returns[OF v few_matches_trimmed[OF this]] show ?thesis .
  qed
  have c2'': "(fst (analyzeResume R this resumeText) =
      Inl (Error (js ''Failed to analyze resume: Resume content is too short or empty''))) = ?short"
    using c2 c2' by blast
  show ?thesis using c1 c2'' c3 c4 by blast
qed

theorem validation_failure_is_rethrown_with_prefix_witness:
  "length (trim (js ''Too brief'')) < 100 \<and>
   tryBlock sampleRuntime \<lparr> lastResumeText = Some (js ''Too brief'') \<rparr> (js ''Too brief'') =
     Inl (Error (js ''Resume content is too short or empty'')) \<and>
   fst (analyzeResume sampleRuntime newAnalyzer (js ''Too brief'')) =
     Inl (Error (js ''Failed to analyze resume: Resume content is too short or empty'')) \<and>
   length (trim hundredResume) = 100 \<and> length hundredResume = 104 \<and>
   100 \<le> maxArguments sampleRuntime \<and>
   (\<exists>result. fst (analyzeResume sampleRuntime newAnalyzer hundredResume) = Inr result)"
proof -
  have s: "length (trim (js ''Too brief'')) < 100"
    by (simp add: js_def trim_def in_cls_def whiteSpace_def)
  have l: "length (trim hundredResume) = 100 \<and> length hundredResume = 104"
    by (simp add: hundredResume_def js_def trim_def in_cls_def whiteSpace_def)
  have a: "100 \<le> maxArguments sampleRuntime" by (simp add: sampleRuntime_def)
  have m: "message (Error (js ''Resume content is too short or empty'')) =
             js ''Resume content is too short or empty''" by simp
  show ?thesis
    using s l a
      validation_failure_is_rethrown_with_prefix[of sampleRuntime "js ''Too brief''" newAnalyzer
        "Error (js ''Resume content is too short or empty'')"]
      validation_failure_is_rethrown_with_prefix[of sampleRuntime hundredResume newAnalyzer
        "Error (js ''Resume content is too short or empty'')"]
    by blast
qed

text \<open>
  C2 as stated fails: the error of a short input is not the validation error itself
  but the rethrown one, the same wrapping that any failure inside the \<open>try\<close> block gets.
\<close>

theorem validation_error_not_verbatim_counterexample:
  "fst (analyzeResume sampleRuntime newAnalyzer (js ''Too short'')) =
     Inl (Error (js ''Failed to analyze resume: Resume content is too short or empty'')) \<and>
   fst (analyzeResume sampleRuntime newAnalyzer (js ''Too short'')) \<noteq>
     Inl (Error (js ''Resume content is too short or empty''))"
  by (simp add: analyzeResume_def tryBlock_def js_def trim_def in_cls_def whiteSpace_def)

text \<open>
  C3. Each of the six scorers clamps its own result to an integer between 0 and 100,
  whatever the text, so the six section scores of a text and the overall score computed
  from them lie between 0 and 100; and in every report that \<open>analyzeResume\<close> returns the
  six section scores and the overall score lie between 0 and 100.
\<close>

theorem scores_within_bounds:
  "(0 \<le> scoreSkillsSection R t \<and> scoreSkillsSection R t \<le> 100) \<and>
   (0 \<le> scoreExperienceSection R t \<and> scoreExperienceSection R t \<le> 100) \<and>
   (0 \<le> scoreEducationSection R t \<and> scoreEducationSection R t \<le> 100) \<and>
   (0 \<le> scoreProjectsSection R t \<and> scoreProjectsSection R t \<le> 100) \<and>
   (0 \<le> scoreAchievementsSection R t \<and> scoreAchievementsSection R t \<le> 100) \<and>
   (0 \<le> scoreFormatting t \<and> scoreFormatting t \<le> 100) \<and>
   inRange (scoreSections R t) \<and>
   0 \<le> overallScore (scoreSections R t) \<and> overallScore (scoreSections R t) \<le> 100 \<and>
   (fst (analyzeResume R this resumeText) = Inr result \<longrightarrow>
      inRange (scores result) \<and>
      0 \<le> overall (scores result) \<and> overall (scores result) \<le> 100)"
proof -
  have rep: "inRange (scores result) \<and>
      0 \<le> overall (scores result) \<and> overall (scores result) \<le> 100"
    if a: "fst (analyzeResume R this resumeText) = Inr result"
  proof -
    have r: "skills (scores result) = skills (scoreSections R resumeText)"
      "experience (scores result) = experience (scoreSections R resumeText)"
      "education (scores result) = education (scoreSections R resumeText)"
      "projects (scores result) = projects (scoreSections R resumeText)"
      "formatting (scores result) = formatting (scoreSections R resumeText)"
      "achievements (scores result) = achievements (scoreSections R resumeText)"
      "overall (scores result) = overallScore (scoreSections R resumeText)"
      using analyzeResume_report[OF a] by blast+
    have "inRange (scores result) = inRange (scoreSections R resumeText)"
      by (rule inRange_cong) (simp_all add: r)
    then have i: "inRange (scores result)" using scoreSections_inRange by simp
    have o: "0 \<le> overall (scores result) \<and> overall (scores result) \<le> 100"
      using overallScore_range[OF scoreSections_inRange, of R resumeText] r(7) by simp
    show ?thesis using i o by blast
  qed
  have f: "0 \<le> scoreFormatting t \<and> scoreFormatting t \<le> 100"
    using scoreFormatting_range[of t] by simp
  have o: "0 \<le> overallScore (scoreSections R t) \<and> overallScore (scoreSections R t) \<le> 100"
    using overallScore_range[OF scoreSections_inRange, of R t] by simp
  show ?thesis
    using scoreSkillsSection_range[of R t] scoreExperienceSection_range[of R t]
      scoreEducationSection_range[of R t] scoreProjectsSection_range[of R t]
      scoreAchievementsSection_range[of R t] f scoreSections_inRange[of R t] o rep
    by blast
qed

theorem scores_within_bounds_witness:
  "(0 \<le> scoreSkillsSection sampleRuntime nurseResume \<and>
    scoreSkillsSection sampleRuntime nurseResume \<le> 100) \<and>
   0 \<le> overallScore (scoreSections sampleRuntime nurseResume) \<and>
   overallScore (scoreSections sampleRuntime nurseResume) \<le> 100 \<and>
   (\<exists>result. fst (analyzeResume sampleRuntime newAnalyzer nurseResume) = Inr result \<and>
      inRange (scores result) \<and>
      0 \<le> overall (scores result) \<and> overall (scores result) \<le> 100)"
proof -
  obtain result where r: "fst (analyzeResume sampleRuntime newAnalyzer nurseResume) = Inr result"
    using nurseResume_returns by blast
  from r scores_within_bounds[of sampleRuntime nurseResume newAnalyzer nurseResume result]
  show ?thesis by blast
qed

text \<open>
  C4 at a failing input. The resume below is valid and contains no digit, no percent
  sign, no dollar sign and none of the quantification verbs, but it contains the plus
  signs of \<open>C++\<close>. The character class of the pattern lists the plus sign next to the
  digits, so the check finds a quantification signal and the report has no
  recommendation about missing quantified achievements.
\<close>

theorem plus_sign_suppresses_quantified_recommendation:
  "validInput cppResume \<and> \<not> documentedSignal cppResume \<and>
   (\<exists>result. fst (analyzeResume sampleRuntime newAnalyzer cppResume) = Inr result \<and>
      \<not> list_ex (\<lambda>r. problem r = js ''Resume lacks quantified achievements'')
            (detailedRecommendations result))"
proof -
  obtain result where r1: "fst (analyzeResume sampleRuntime newAnalyzer cppResume) = Inr result"
    using analyzeResume_returns[OF cppResume_facts(1) few_matches[OF cppResume_short]] by blast
  have r: "fst (analyzeResume sampleRuntime newAnalyzer cppResume) = Inr result"
    "detailedRecommendations result =
       generateRecommendations sampleRuntime cppResume (scoreSections sampleRuntime cppResume)"
    using r1 analyzeResume_report[OF r1] by blast+
  have q: "regex_test True quantificationRegex cppResume"
    using cppResume_facts(3) by (simp add: hasQuantification_iff)
  have "\<not> list_ex (\<lambda>r. problem r = js ''Resume lacks quantified achievements'')
            (detailedRecommendations result)"
    unfolding r(2) list_ex_iff using recommendation_absent_with_signal[OF q] by blast
  with r(1) cppResume_facts(1,2) show ?thesis by blast
qed

text \<open>
  C5. Both detection loops walk the ten industries in the order technology, business,
  healthcare, education, engineering, creative, service, legal, government, finance,
  and count for each the indicator keywords that at least one token matches in either
  direction. For every indicator table and every token sequence: if every count is 0
  the result is \<open>general\<close>; otherwise the result is the first industry whose count is
  the maximum, so an industry further down with the same count never displaces it.
\<close>

theorem industry_detection_first_maximum_wins:
  "map fst roadmapIndustryIndicators = industryOrder \<and>
   map fst roleIndustryIndicators = industryOrder \<and>
   (keyword \<in> set (matchedKeywords kws tokens) \<longleftrightarrow>
      keyword \<in> set kws \<and>
      (\<exists>token \<in> set tokens. includes_str token (cleanKeyword keyword) \<or>
                             includes_str (cleanKeyword keyword) token)) \<and>
   matchCount kws tokens = int (length (matchedKeywords kws tokens)) \<and>
   ((\<forall>e \<in> set table. matchCount (snd e) tokens = 0) \<longrightarrow>
      detectIndustry table tokens = js ''general'') \<and>
   (i < length table \<and> 0 < matchCount (snd (table ! i)) tokens \<and>
    (\<forall>j < length table.
       matchCount (snd (table ! j)) tokens \<le> matchCount (snd (table ! i)) tokens) \<and>
    (\<forall>j < i. matchCount (snd (table ! j)) tokens < matchCount (snd (table ! i)) tokens) \<longrightarrow>
      detectIndustry table tokens = fst (table ! i))"
  using roadmap_order role_order matchedKeywords_iff[of keyword kws tokens]
    detect_general[of table tokens] detect_first_maximum[of i table tokens]
  by (simp add: matchCount_def)

text \<open>
  A witness with a tie: the token \<open>sales\<close> matches one keyword of the first and one of
  the third industry of this table, and the first one is selected; no token matches a
  keyword of the table that holds \<open>nurse\<close> only, and the result is \<open>general\<close>.
\<close>

theorem industry_detection_first_maximum_wins_witness:
  "matchCount [js ''nurse''] [js ''sales''] = 0 \<and>
   detectIndustry [(js ''healthcare'', [js ''nurse''])] [js ''sales''] = js ''general'' \<and>
   matchCount [js ''sales'', js ''hr''] [js ''sales''] = 1 \<and>
   matchCount [js ''hotel'', js ''sales''] [js ''sales''] = 1 \<and>
   detectIndustry [(js ''business'', [js ''sales'', js ''hr'']), (js ''healthcare'', [js ''nurse'']),
                   (js ''service'', [js ''hotel'', js ''sales''])] [js ''sales''] = js ''business''"
proof -
  let ?t1 = "[(js ''healthcare'', [js ''nurse''])]"
  let ?t2 = "[(js ''business'', [js ''sales'', js ''hr'']), (js ''healthcare'', [js ''nurse'']),
              (js ''service'', [js ''hotel'', js ''sales''])]"
  have c: "matchCount [js ''nurse''] [js ''sales''] = 0"
    "matchCount [js ''sales'', js ''hr''] [js ''sales''] = 1"
    "matchCount [js ''hotel'', js ''sales''] [js ''sales''] = 1"
    by code_simp+
  have z: "\<forall>e \<in> set ?t1. matchCount (snd e) [js ''sales''] = 0" using c by simp
  have a: "detectIndustry ?t1 [js ''sales''] = js ''general''"
    using industry_detection_first_maximum_wins[of _ _ "[js ''sales'']" ?t1] z by blast
  have h: "0 < length ?t2 \<and> 0 < matchCount (snd (?t2 ! 0)) [js ''sales''] \<and>
    (\<forall>j < length ?t2. matchCount (snd (?t2 ! j)) [js ''sales''] \<le> matchCount (snd (?t2 ! 0)) [js ''sales'']) \<and>
    (\<forall>j < 0. matchCount (snd (?t2 ! j)) [js ''sales''] < matchCount (snd (?t2 ! 0)) [js ''sales''])"
    using c by (simp add: less_Suc_eq numeral_3_eq_3 all_conj_distrib)
  have b: "detectIndustry ?t2 [js ''sales''] = fst (?t2 ! 0)"
    using industry_detection_first_maximum_wins[of _ _ "[js ''sales'']" ?t2 0] h by blast
  show ?thesis using c a b by simp
qed

text \<open>
  C6, amended. \<open>generateRoadmap\<close> and \<open>suggestRoles\<close> run the same detection loop over
  the tokens of the same text, but each over its own indicator table. The two tables
  list the same ten industries in the same order, and every roadmap indicator of an
  industry is also a role indicator of it; the role table has further keywords. The
  two selected industries are equal whenever the two tables give every industry the
  same match count, and when the roadmap industry is not \<open>general\<close> the role industry
  is not \<open>general\<close> either.
\<close>

theorem same_detection_loop_over_two_tables:
  "roadmapIndustry R resumeText =
     detectIndustry roadmapIndustryIndicators (preprocessText R resumeText) \<and>
   roleIndustry R \<lparr> lastResumeText = Some resumeText \<rparr> =
     detectIndustry roleIndustryIndicators (preprocessText R resumeText) \<and>
   list_all2 (\<lambda>a b. fst a = fst b \<and> set (snd a) \<subseteq> set (snd b))
     roadmapIndustryIndicators roleIndustryIndicators \<and>
   (map (\<lambda>e. matchCount (snd e) (preprocessText R resumeText)) roadmapIndustryIndicators =
    map (\<lambda>e. matchCount (snd e) (preprocessText R resumeText)) roleIndustryIndicators \<longrightarrow>
      roadmapIndustry R resumeText = roleIndustry R \<lparr> lastResumeText = Some resumeText \<rparr>) \<and>
   (roadmapIndustry R resumeText \<noteq> js ''general'' \<longrightarrow>
      roleIndustry R \<lparr> lastResumeText = Some resumeText \<rparr> \<noteq> js ''general'')"
proof -
  let ?tokens = "preprocessText R resumeText"
  have a: "roadmapIndustry R resumeText = detectIndustry roadmapIndustryIndicators ?tokens"
    by (simp add: roadmapIndustry_def)
  have b: "roleIndustry R \<lparr> lastResumeText = Some resumeText \<rparr> =
           detectIndustry roleIndustryIndicators ?tokens"
    by (simp add: roleIndustry_def)
  have k: "map fst roadmapIndustryIndicators = map fst roleIndustryIndicators"
    by (simp add: roadmap_order role_order)
  have c: "map (\<lambda>e. matchCount (snd e) ?tokens) roadmapIndustryIndicators =
           map (\<lambda>e. matchCount (snd e) ?tokens) roleIndustryIndicators \<longrightarrow>
           roadmapIndustry R resumeText = roleIndustry R \<lparr> lastResumeText = Some resumeText \<rparr>"
    unfolding a b detectIndustry_def using detect_same_counts[OF k] by simp
  have d: "roadmapIndustry R resumeText \<noteq> js ''general'' \<longrightarrow>
           roleIndustry R \<lparr> lastResumeText = Some resumeText \<rparr> \<noteq> js ''general''"
    unfolding a b using role_industry_follows by blast
  show ?thesis using a b tables_aligned c d by blast
qed

text \<open>
  A witness: the token \<open>nurse\<close> matches \<open>nurse\<close> in both tables and nothing else, and both
  loops select \<open>healthcare\<close>.
\<close>

theorem same_detection_loop_over_two_tables_witness:
  "roadmapIndustry sampleRuntime (js ''nurse'') \<noteq> js ''general'' \<and>
   roleIndustry sampleRuntime \<lparr> lastResumeText = Some (js ''nurse'') \<rparr> \<noteq> js ''general''"
proof -
  have t: "preprocessText sampleRuntime (js ''nurse'') = [js ''nurse'']" by code_simp
  have "detectIndustry roadmapIndustryIndicators [js ''nurse''] = js ''healthcare''" by code_simp
  then have r: "roadmapIndustry sampleRuntime (js ''nurse'') = js ''healthcare''"
    by (simp add: roadmapIndustry_def t)
  have n: "js ''healthcare'' \<noteq> js ''general''" by (simp add: js_def)
  have g: "roadmapIndustry sampleRuntime (js ''nurse'') \<noteq> js ''general''" using r n by simp
  have "roadmapIndustry sampleRuntime (js ''nurse'') \<noteq> js ''general'' \<longrightarrow>
        roleIndustry sampleRuntime \<lparr> lastResumeText = Some (js ''nurse'') \<rparr> \<noteq> js ''general''"
    using same_detection_loop_over_two_tables[of sampleRuntime "js ''nurse''"] by blast
  then show ?thesis using g by blast
qed

text \<open>
  C6 as stated fails: for a resume whose only word is \<open>tax\<close> no roadmap indicator
  matches and the roadmap industry is \<open>general\<close>, while the role table has the keyword
  \<open>tax\<close> and the role industry is \<open>finance\<close>.
\<close>

theorem roadmap_and_role_industry_differ_counterexample:
  "validInput taxResume \<and>
   roadmapIndustry sampleRuntime taxResume = js ''general'' \<and>
   roleIndustry sampleRuntime \<lparr> lastResumeText = Some taxResume \<rparr> = js ''finance'' \<and>
   roadmapIndustry sampleRuntime taxResume \<noteq>
     roleIndustry sampleRuntime \<lparr> lastResumeText = Some taxResume \<rparr>"
proof -
  have v: "validInput taxResume"
    by (simp add: validInput_def taxResume_def js_def trim_def in_cls_def whiteSpace_def)
  have s: "set (preprocessText sampleRuntime taxResume) = set [js ''tax'']"
    using taxResume_tokens by simp
  have a: "roadmapIndustry sampleRuntime taxResume = js ''general''"
    unfolding roadmapIndustry_def Let_def detectIndustry_set_cong[OF s] by (rule tax_roadmap)
  have b: "roleIndustry sampleRuntime \<lparr> lastResumeText = Some taxResume \<rparr> = js ''finance''"
    unfolding roleIndustry_def Let_def using detectIndustry_set_cong[OF s] tax_roles by simp
  have n: "js ''general'' \<noteq> js ''finance''" by (simp add: js_def)
  show ?thesis using v a b n by simp
qed

text \<open>
  C7 at a failing input. \<open>estimateSalary\<close> is called with the overall score 50 and the tier
  name \<open>constructor\<close>, which is none of the three tiers. The documented band of an unknown
  tier is the Entry band, and the code does give an unknown tier such as \<open>Intern\<close> the
  Entry band times 0.7, which is 31,500 to 52,500. But \<open>baseRanges['constructor']\<close> is the
  function that every object inherits from \<open>Object.prototype\<close>: it is truthy, so
  \<open>baseRanges[experienceLevel] || baseRanges['Entry Level']\<close> does not fall back, the
  \<open>min\<close> and \<open>max\<close> of that function are undefined, and both bounds come out as \<open>NaN\<close>.
\<close>

theorem salary_fallback_misses_inherited_tier:
  "documentedBand (js ''constructor'') = \<lparr> range_min = 45000, range_max = 75000 \<rparr> \<and>
   salaryBounds 50 (js ''Intern'') = Some (31500, 52500) \<and>
   salaryBounds 50 (js ''constructor'') = None \<and>
   salaryRange (estimateSalary sampleRuntime 50 (js ''constructor'')) = js ''$NaN - $NaN''"
proof -
  have d: "documentedBand (js ''constructor'') = \<lparr> range_min = 45000, range_max = 75000 \<rparr>"
    by (simp add: documentedBand_def js_def)
  have i: "\<not> List.member objectPrototypeNames (js ''Intern'')"
    by (simp add: objectPrototypeNames_def js_def)
  have di: "documentedBand (js ''Intern'') = \<lparr> range_min = 45000, range_max = 75000 \<rparr>"
    by (simp add: documentedBand_def js_def)
  have u: "salaryBounds 50 (js ''Intern'') = Some (31500, 52500)"
    using salaryBounds_exact[of 50 "js ''Intern''", OF _ _ i] unfolding di by simp
  have c: "salaryBounds 50 (js ''constructor'') = None \<and>
     salaryRange (estimateSalary sampleRuntime 50 (js ''constructor'')) = js ''$NaN - $NaN''"
    by (simp add: salaryBounds_def getProperty_def baseRanges_def objectPrototypeNames_def
        estimateSalary_def sampleRuntime_def js_def)
  show ?thesis using d u c by blast
qed

text \<open>
  C8. The roadmap is the template of the detected industry, which is the entry of that
  industry in the table of templates and has 3 steps, then the leadership step if the
  experience score is above 70, then the certification milestone if the skills score is
  above 60, then the closing step on continuous professional development, cut to 6
  items. (The cut is the one that would remove the closing step if 6 steps came before
  it. A template has 3 steps and at most 2 steps follow it, so at most 5 steps come
  before the closing one: the cut removes nothing, and the closing step is the last
  item of every roadmap.)
\<close>

theorem roadmap_is_template_then_conditionals_then_closer:
  "\<exists>template.
     map_of industryRoadmaps
       (detectIndustry roadmapIndustryIndicators (preprocessText R resumeText)) = Some template \<and>
     length template = 3 \<and>
     generateRoadmap R resumeText sects =
       take 6 (template @ (if experience sects > 70 then [leadershipStep] else []) @
                          (if skills sects > 60 then [certificationStep] else []) @ [closingStep]) \<and>
     generateRoadmap R resumeText sects =
       template @ (if experience sects > 70 then [leadershipStep] else []) @
                  (if skills sects > 60 then [certificationStep] else []) @ [closingStep] \<and>
     title leadershipStep = js ''Develop Leadership and Management Skills'' \<and>
     title certificationStep = js ''Pursue Professional Certifications'' \<and>
     itemType certificationStep = js ''milestone'' \<and>
     title closingStep = js ''Continuous Professional Development''"
proof -
  have i: "roadmapIndustry R resumeText =
     detectIndustry roadmapIndustryIndicators (preprocessText R resumeText)"
    by (simp add: roadmapIndustry_def)
  obtain template where t:
    "map_of industryRoadmaps (roadmapIndustry R resumeText) = Some template"
    "length template = 3"
    "lookupOr industryRoadmaps (roadmapIndustry R resumeText) (js ''general'') = template"
    using roadmap_template[of R resumeText] by blast
  have g: "generateRoadmap R resumeText sects =
       take 6 (template @ (if experience sects > 70 then [leadershipStep] else []) @
                          (if skills sects > 60 then [certificationStep] else []) @ [closingStep])"
    by (simp add: generateRoadmap_def Let_def t(3) extendRoadmap_eq)
  have "length (template @ (if experience sects > 70 then [leadershipStep] else []) @
                  (if skills sects > 60 then [certificationStep] else []) @ [closingStep]) \<le> 6"
    using t(2) by simp
  then have h: "generateRoadmap R resumeText sects =
       template @ (if experience sects > 70 then [leadershipStep] else []) @
                  (if skills sects > 60 then [certificationStep] else []) @ [closingStep]"
    unfolding g by (rule take_all)
  have s: "title leadershipStep = js ''Develop Leadership and Management Skills''"
    "title certificationStep = js ''Pursue Professional Certifications''"
    "itemType certificationStep = js ''milestone''"
    "title closingStep = js ''Continuous Professional Development''"
    by (simp_all add: leadershipStep_def certificationStep_def closingStep_def item_def)
  show ?thesis using t(1,2) g h s unfolding i by blast
qed

theorem roadmap_is_template_then_conditionals_then_closer_witness:
  "map (\<lambda>step. title step)
     (generateRoadmap sampleRuntime (js ''Registered nurse'')
        \<lparr> skills = 70, experience = 80, education = 0, projects = 0, formatting = 35,
          achievements = 0 \<rparr>) =
     map js [''Advance Clinical Knowledge'', ''Develop Patient Care Skills'',
             ''Pursue Specialization'', ''Develop Leadership and Management Skills'',
             ''Pursue Professional Certifications'', ''Continuous Professional Development'']"
proof -
  let ?s = "\<lparr> skills = 70, experience = 80, education = 0, projects = 0, formatting = 35,
             achievements = 0 \<rparr>"
  have d: "detectIndustry roadmapIndustryIndicators
             (preprocessText sampleRuntime (js ''Registered nurse'')) = js ''healthcare''"
    by code_simp
  have m: "map_of industryRoadmaps (js ''healthcare'') =
     Some [item ''Advance Clinical Knowledge'' ''learn''
             ''Stay updated with latest medical practices and technologies'',
           item ''Develop Patient Care Skills'' ''project''
             ''Enhance bedside manner and patient communication'',
           item ''Pursue Specialization'' ''learn''
             ''Focus on specific medical areas of interest'']"
    by (simp add: industryRoadmaps_def js_def)
  from roadmap_is_template_then_conditionals_then_closer[of sampleRuntime "js ''Registered nurse''" ?s]
  obtain template where t:
    "map_of industryRoadmaps (js ''healthcare'') = Some template"
    "generateRoadmap sampleRuntime (js ''Registered nurse'') ?s =
       template @ (if experience ?s > 70 then [leadershipStep] else []) @
                  (if skills ?s > 60 then [certificationStep] else []) @ [closingStep]"
    "title leadershipStep = js ''Develop Leadership and Management Skills''"
    "title certificationStep = js ''Pursue Professional Certifications''"
    "title closingStep = js ''Continuous Professional Development''"
    unfolding d by blast
  from t(1) m have "template =
       [item ''Advance Clinical Knowledge'' ''learn''
             ''Stay updated with latest medical practices and technologies'',
           item ''Develop Patient Care Skills'' ''project''
             ''Enhance bedside manner and patient communication'',
           item ''Pursue Specialization'' ''learn''
             ''Focus on specific medical areas of interest'']" by simp
  then show ?thesis unfolding t(2) by (simp add: t(3,4,5) item_def)
qed

text \<open>
  C9 at a failing input. The filter of \<open>preprocessText\<close> does replace every character
  outside the allow-list by a space (\<open>preprocessText_eq\<close>, \<open>allowed_iff\<close>), and the plus
  sign, the hash sign and the dot pass it. The tokenizer then splits the filtered text
  at every character that is not a letter, a digit or an underscore
  (\<open>wordTokenizer_drops_symbols\<close>): \<open>C++ C# Node.js\<close> reaches the tokenizer as
  \<open>c++ c# node.js\<close> and leaves it as \<open>c\<close>, \<open>c\<close>, \<open>node\<close>, \<open>js\<close>; no token holds a plus sign, a
  hash sign or a dot.
\<close>

theorem symbols_pass_the_filter_but_not_the_tokenizer:
  "replace_all False (NotClass allowed) (js '' '') (toLowerCase symbolsText) = js ''c++ c# node.js'' \<and>
   tokenize sampleRuntime (js ''c++ c# node.js'') = [js ''c'', js ''c'', js ''node'', js ''js''] \<and>
   preprocessText sampleRuntime symbolsText = [js ''c'', js ''c'', js ''node'', js ''js''] \<and>
   \<not> list_ex (\<lambda>token. 0x2B \<in> set token \<or> 0x23 \<in> set token \<or> 0x2E \<in> set token)
         (preprocessText sampleRuntime symbolsText)"
proof -
  have f: "replace_all False (NotClass allowed) (js '' '') (toLowerCase symbolsText) =
           js ''c++ c# node.js''"
    unfolding symbolsText_def by code_simp
  have t: "tokenize sampleRuntime (js ''c++ c# node.js'') = [js ''c'', js ''c'', js ''node'', js ''js'']"
    by code_simp
  have p: "preprocessText sampleRuntime symbolsText = [js ''c'', js ''c'', js ''node'', js ''js'']"
    unfolding preprocessText_def Let_def f t by (simp add: sampleRuntime_def)
  have n: "\<not> list_ex (\<lambda>token. 0x2B \<in> set token \<or> 0x23 \<in> set token \<or> 0x2E \<in> set token)
         [js ''c'', js ''c'', js ''node'', js ''js'']"
    by (simp add: js_def)
  show ?thesis using f t p n by simp
qed

text \<open>
  C10. Whatever the size of the text, \<open>detectPrimarySkills\<close> returns at most 8 skills,
  \<open>generateRecommendations\<close> at most 6 recommendations, \<open>generateRoadmap\<close> at most 6 items
  and \<open>suggestRoles\<close> at most 8 roles, so every report that \<open>analyzeResume\<close> returns has
  lists within these caps. The target roles are the first 8 of the candidate roles after
  deduplication: no role occurs twice, every candidate role is kept once, and a role is
  placed where it occurs first (appending a role changes nothing if the role occurred
  before, and otherwise puts it last).
\<close>

theorem report_lists_within_caps:
  "length (detectPrimarySkills R t) \<le> 8 \<and>
   length (generateRecommendations R t sects) \<le> 6 \<and>
   length (generateRoadmap R t sects) \<le> 6 \<and>
   length (suggestRoles R this sects skillList) \<le> 8 \<and>
   distinct (suggestRoles R this sects skillList) \<and>
   suggestRoles R this sects skillList = take 8 (uniq (candidateRoles R this sects skillList)) \<and>
   distinct (uniq roles) \<and> set (uniq roles) = set roles \<and> uniq [] = [] \<and>
   uniq (roles @ [role]) = (if role \<in> set roles then uniq roles else uniq roles @ [role]) \<and>
   (fst (analyzeResume R this resumeText) = Inr result \<longrightarrow>
      length (primarySkills result) \<le> 8 \<and>
      length (detailedRecommendations result) \<le> 6 \<and>
      length (roadmap result) \<le> 6 \<and>
      length (targetRoles result) \<le> 8 \<and>
      distinct (targetRoles result) \<and>
      targetRoles result =
        take 8 (uniq (candidateRoles R \<lparr> lastResumeText = Some resumeText \<rparr>
                        (scoreSections R resumeText) (primarySkills result))))"
proof -
  have rep: "length (primarySkills result) \<le> 8 \<and>
      length (detailedRecommendations result) \<le> 6 \<and>
      length (roadmap result) \<le> 6 \<and>
      length (targetRoles result) \<le> 8 \<and>
      distinct (targetRoles result) \<and>
      targetRoles result =
        take 8 (uniq (candidateRoles R \<lparr> lastResumeText = Some resumeText \<rparr>
                        (scoreSections R resumeText) (primarySkills result)))"
    if a: "fst (analyzeResume R this resumeText) = Inr result"
  proof -
    have r: "primarySkills result = detectPrimarySkills R resumeText"
      "detailedRecommendations result =
         generateRecommendations R resumeText (scoreSections R resumeText)"
      "roadmap result = generateRoadmap R resumeText (scoreSections R resumeText)"
      "targetRoles result = suggestRoles R \<lparr> lastResumeText = Some resumeText \<rparr>
         (scoreSections R resumeText) (detectPrimarySkills R resumeText)"
      using analyzeResume_report[OF a] by blast+
    have s: "length (primarySkills result) \<le> 8"
      unfolding r(1) by (rule detectPrimarySkills_length)
    have c: "length (detailedRecommendations result) \<le> 6"
      unfolding r(2) by (rule generateRecommendations_length)
    have m: "length (roadmap result) \<le> 6" unfolding r(3) by (rule generateRoadmap_length)
    have l: "length (targetRoles result) \<le> 8" unfolding r(4) by (rule suggestRoles_length)
    have d: "distinct (targetRoles result)"
      unfolding r(4) suggestRoles_def by (rule distinct_take[OF distinct_uniq])
    have e: "targetRoles result =
               take 8 (uniq (candidateRoles R \<lparr> lastResumeText = Some resumeText \<rparr>
                               (scoreSections R resumeText) (primarySkills result)))"
      unfolding r(4) r(1) suggestRoles_def by (rule refl)
    show ?thesis using s c m l d e by blast
  qed
  have d: "distinct (suggestRoles R this sects skillList)"
    unfolding suggestRoles_def by (rule distinct_take[OF distinct_uniq])
  have e: "suggestRoles R this sects skillList =
             take 8 (uniq (candidateRoles R this sects skillList))"
    unfolding suggestRoles_def by (rule refl)
  have u: "uniq [] = []" by (simp add: uniq_def)
  have n: "uniq (roles @ [role]) = (if role \<in> set roles then uniq roles else uniq roles @ [role])"
    using uniq_snoc[of roles role] by (simp add: set_uniq)
  show ?thesis
  proof (intro conjI impI)
    show "length (detectPrimarySkills R t) \<le> 8" by (rule detectPrimarySkills_length)
    show "length (generateRecommendations R t sects) \<le> 6"
      by (rule generateRecommendations_length)
    show "length (generateRoadmap R t sects) \<le> 6" by (rule generateRoadmap_length)
    show "length (suggestRoles R this sects skillList) \<le> 8" by (rule suggestRoles_length)
    show "distinct (suggestRoles R this sects skillList)" by (rule d)
    show "suggestRoles R this sects skillList =
            take 8 (uniq (candidateRoles R this sects skillList))" by (rule e)
    show "distinct (uniq roles)" by (rule distinct_uniq)
    show "set (uniq roles) = set roles" by (rule set_uniq)
    show "uniq [] = []" by (rule u)
    show "uniq (roles @ [role]) = (if role \<in> set roles then uniq roles else uniq roles @ [role])"
      by (rule n)
  next
    assume a: "fst (analyzeResume R this resumeText) = Inr result"
    note rep[OF a]
    then show "length (primarySkills result) \<le> 8"
      and "length (detailedRecommendations result) \<le> 6"
      and "length (roadmap result) \<le> 6"
      and "length (targetRoles result) \<le> 8"
      and "distinct (targetRoles result)"
      and "targetRoles result =
        take 8 (uniq (candidateRoles R \<lparr> lastResumeText = Some resumeText \<rparr>
                        (scoreSections R resumeText) (primarySkills result)))"
      by blast+
  qed
qed

theorem report_lists_within_caps_witness:
  "\<exists>result. fst (analyzeResume sampleRuntime newAnalyzer nurseResume) = Inr result \<and>
      length (primarySkills result) \<le> 8 \<and>
      length (detailedRecommendations result) \<le> 6 \<and>
      length (roadmap result) \<le> 6 \<and>
      length (targetRoles result) \<le> 8 \<and>
      distinct (targetRoles result)"
proof -
  obtain result where r: "fst (analyzeResume sampleRuntime newAnalyzer nurseResume) = Inr result"
    using nurseResume_returns by blast
  have "fst (analyzeResume sampleRuntime newAnalyzer nurseResume) = Inr result \<longrightarrow>
      length (primarySkills result) \<le> 8 \<and>
      length (detailedRecommendations result) \<le> 6 \<and>
      length (roadmap result) \<le> 6 \<and>
      length (targetRoles result) \<le> 8 \<and>
      distinct (targetRoles result) \<and>
      targetRoles result =
        take 8 (uniq (candidateRoles sampleRuntime \<lparr> lastResumeText = Some nurseResume \<rparr>
                        (scoreSections sampleRuntime nurseResume) (primarySkills result)))"
    using report_lists_within_caps[of sampleRuntime nurseResume
        "scoreSections sampleRuntime nurseResume" newAnalyzer "[]" "[]" "[]" nurseResume result]
    by (elim conjE)
  with r show ?thesis by blast
qed

end
